theory Spec2Isabelle
  imports Main "HOL-Library.Char_ord" "HOL-Library.List_Lexorder" "HOL-Library.AList"
begin

section \<open>JavaScript values and helpers\<close>

text \<open>
  The tools are Node.js scripts. A string is a list of characters, a path is the list of
  its components (already resolved), so \<open>path.join(dir, name)\<close> is \<open>dir @ [name]\<close>,
  \<open>path.basename\<close> is \<open>last\<close> and \<open>path.dirname\<close> is \<open>butlast\<close>.
  Errors thrown by the scripts are values of \<open>js_error\<close>.
\<close>

type_synonym path = "string list"

datatype js_error =
    Error string
  | SyntaxError
  | TypeError
  | IOError

definition basename :: "path \<Rightarrow> string" where
  "basename p = (if p = [] then [] else last p)"

definition dirname :: "path \<Rightarrow> path" where
  "dirname p = butlast p"

definition endsWith :: "string \<Rightarrow> string \<Rightarrow> bool" where
  "endsWith s sfx = (length sfx \<le> length s \<and> drop (length s - length sfx) s = sfx)"

definition startsWith :: "string \<Rightarrow> string \<Rightarrow> bool" where
  "startsWith s pfx = (take (length pfx) s = pfx)"

definition str_includes :: "string \<Rightarrow> string \<Rightarrow> bool" where
  "str_includes s sub = (\<exists>i \<in> set [0..<Suc (length s)]. take (length sub) (drop i s) = sub)"

definition upper_letters :: string where
  "upper_letters = ''ABCDEFGHIJKLMNOPQRSTUVWXYZ''"

definition lower_letters :: string where
  "lower_letters = ''abcdefghijklmnopqrstuvwxyz''"

text \<open>Case conversion of the ASCII letters (the extensions and file names of the tools).\<close>

definition toLowerCase :: "string \<Rightarrow> string" where
  "toLowerCase s =
     map (\<lambda>c. case map_of (zip upper_letters lower_letters) c of Some d \<Rightarrow> d | None \<Rightarrow> c) s"

definition toUpperCase :: "string \<Rightarrow> string" where
  "toUpperCase s =
     map (\<lambda>c. case map_of (zip lower_letters upper_letters) c of Some d \<Rightarrow> d | None \<Rightarrow> c) s"

text \<open>
  \<open>path.extname\<close>: from the last dot of the name to its end; empty when the name has
  no dot or its only dot is the first character.
\<close>

definition extname :: "string \<Rightarrow> string" where
  "extname name =
     (let r = takeWhile (\<lambda>c. c \<noteq> CHR ''.'') (rev name)
      in if CHR ''.'' \<notin> set name \<or> Suc (length r) = length name then []
         else CHR ''.'' # rev r)"

text \<open>
  \<open>Array.prototype.slice(start, end)\<close>: a negative index counts from the end, and both
  indices are clamped to the array.
\<close>

definition slice :: "'a list \<Rightarrow> int \<Rightarrow> int \<Rightarrow> 'a list" where
  "slice xs start fin =
     (let len = int (length xs);
          k = (if start < 0 then max (len + start) 0 else min start len);
          final = (if fin < 0 then max (len + fin) 0 else min fin len)
      in take (nat (final - k)) (drop (nat k) xs))"


text \<open>
  \<open>Math.ceil(a / b)\<close> on integers. For \<open>b = 0\<close> JavaScript yields \<open>Infinity\<close> (or
  \<open>NaN\<close>), which this integer model cannot hold; the splitters never read the chunk size
  then, since their loop body runs only when \<open>0 < numSplits\<close>.
\<close>

definition ceil_div :: "int \<Rightarrow> int \<Rightarrow> int" where
  "ceil_div a b = - ((- a) div b)"

section \<open>The splitters: partition into chunks\<close>

text \<open>
  \<open>WorkSplitter.splitImages\<close> (image viewer) and \<open>DocumentSplitter.splitDocuments\<close>
  (document app) run the same loop
  \<^verbatim>\<open>for (let i = 0; i < this.numSplits; i++) { ... slice(startIdx, endIdx) ... }\<close>
  which keeps the non-empty chunks. \<open>numSplits\<close> is the integer that \<open>parseInt\<close> read
  from the command line.
\<close>

function splitImages_loop ::
  "int \<Rightarrow> int \<Rightarrow> 'a list \<Rightarrow> int \<Rightarrow> 'a list list \<Rightarrow> 'a list list" where
  "splitImages_loop numSplits chunkSize imageFiles i chunks =
     (if i < numSplits then
        (let startIdx = i * chunkSize;
             endIdx = min ((i + 1) * chunkSize) (int (length imageFiles));
             chunk = slice imageFiles startIdx endIdx
         in splitImages_loop numSplits chunkSize imageFiles (i + 1)
              (if length chunk > 0 then chunks @ [chunk] else chunks))
      else chunks)"
  by pat_completeness auto
termination
  by (relation "measure (\<lambda>(n, c, f, i, ch). nat (n - i))") auto

declare splitImages_loop.simps [simp del]

definition splitImages :: "int \<Rightarrow> 'a list \<Rightarrow> js_error + 'a list list" where
  "splitImages numSplits imageFiles =
     (if length imageFiles = 0 then Inl (Error ''No image files found in source folder'')
      else Inr (splitImages_loop numSplits
                  (ceil_div (int (length imageFiles)) numSplits) imageFiles 0 []))"

function splitDocuments_loop ::
  "int \<Rightarrow> int \<Rightarrow> 'a list \<Rightarrow> int \<Rightarrow> 'a list list \<Rightarrow> 'a list list" where
  "splitDocuments_loop numSplits chunkSize documentFiles i chunks =
     (if i < numSplits then
        (let startIdx = i * chunkSize;
             endIdx = min ((i + 1) * chunkSize) (int (length documentFiles));
             chunk = slice documentFiles startIdx endIdx
         in splitDocuments_loop numSplits chunkSize documentFiles (i + 1)
              (if length chunk > 0 then chunks @ [chunk] else chunks))
      else chunks)"
  by pat_completeness auto
termination
  by (relation "measure (\<lambda>(n, c, f, i, ch). nat (n - i))") auto

declare splitDocuments_loop.simps [simp del]

definition splitDocuments :: "int \<Rightarrow> 'a list \<Rightarrow> js_error + 'a list list" where
  "splitDocuments numSplits documentFiles =
     (if length documentFiles = 0 then Inl (Error ''No document files found in source folder'')
      else Inr (splitDocuments_loop numSplits
                  (ceil_div (int (length documentFiles)) numSplits) documentFiles 0 []))"



section \<open>Decimal numerals and package names\<close>

definition digit_char :: "nat \<Rightarrow> char" where
  "digit_char d = (''0123456789'' ! (d mod 10))"

function string_of_nat :: "nat \<Rightarrow> string" where
  "string_of_nat n =
     (if n < 10 then [digit_char n] else string_of_nat (n div 10) @ [digit_char (n mod 10)])"
  by pat_completeness auto
termination
  by (relation "measure (\<lambda>n. n)") auto

declare string_of_nat.simps [simp del]

text \<open>\<open>s.padStart(n, '0')\<close>\<close>

definition padStart0 :: "nat \<Rightarrow> string \<Rightarrow> string" where
  "padStart0 n s = replicate (n - length s) (CHR ''0'') @ s"

definition path_str :: "path \<Rightarrow> string" where
  "path_str p = concat (map (\<lambda>c. CHR ''/'' # c) p)"

section \<open>JSON documents\<close>

text \<open>
  A parsed JSON value. An object is the list of its own properties in the order
  \<open>Object.entries\<close> enumerates them; numbers are integers (the tools only test them for
  zero, add them and count with them).
\<close>

datatype json =
    JNull
  | JBool bool
  | JNum int
  | JStr string
  | JArr "json list"
  | JObj "(string \<times> json) list"

text \<open>JavaScript truthiness of a parsed value.\<close>

fun truthy :: "json \<Rightarrow> bool" where
  "truthy JNull = False"
| "truthy (JBool b) = b"
| "truthy (JNum n) = (n \<noteq> 0)"
| "truthy (JStr s) = (s \<noteq> [])"
| "truthy (JArr vs) = True"
| "truthy (JObj kvs) = True"

text \<open>
  Reading a property \<open>v.key\<close> for the keys the tools read (\<open>captions\<close>, \<open>aiData\<close>,
  \<open>totalImages\<close>, \<open>modelUsed\<close>, \<open>metadata\<close>, \<open>export_info\<close>, \<open>ai_model\<close>), none of
  which is a built-in property of strings, arrays, numbers or booleans: on \<open>null\<close> the read
  throws a \<open>TypeError\<close>, on an object it yields the own property, otherwise \<open>undefined\<close>
  (\<open>None\<close>).
\<close>

fun js_prop :: "json \<Rightarrow> string \<Rightarrow> js_error + json option" where
  "js_prop JNull key = Inl TypeError"
| "js_prop (JObj kvs) key = Inr (map_of kvs key)"
| "js_prop v key = Inr None"

definition truthy_opt :: "json option \<Rightarrow> bool" where
  "truthy_opt v = (case v of None \<Rightarrow> False | Some j \<Rightarrow> truthy j)"

text \<open>
  \<open>Object.entries(v)\<close> and the own enumerable properties that \<open>Object.assign\<close> copies,
  for a truthy \<open>v\<close>: the properties of an object, the indexed elements of an array, the
  indexed characters of a string, nothing for a number or a boolean.
\<close>

fun js_entries :: "json \<Rightarrow> (string \<times> json) list" where
  "js_entries (JObj kvs) = kvs"
| "js_entries (JArr vs) = zip (map string_of_nat [0..<length vs]) vs"
| "js_entries (JStr s) = zip (map string_of_nat [0..<length s]) (map (\<lambda>c. JStr [c]) s)"
| "js_entries v = []"

text \<open>
  The names every object inherits from \<open>Object.prototype\<close>; reading one of them on a plain
  object that has no own property of that name yields a function or an object, which is
  truthy.
\<close>

definition object_prototype_keys :: "string list" where
  "object_prototype_keys =
     [''constructor'', ''__defineGetter__'', ''__defineSetter__'', ''hasOwnProperty'',
      ''__lookupGetter__'', ''__lookupSetter__'', ''isPrototypeOf'', ''propertyIsEnumerable'',
      ''toString'', ''valueOf'', ''__proto__'', ''toLocaleString'']"

text \<open>\<open>!obj[key]\<close> is false exactly when this holds.\<close>

definition has_truthy :: "(string \<times> json) list \<Rightarrow> string \<Rightarrow> bool" where
  "has_truthy obj key =
     (case map_of obj key of
        Some v \<Rightarrow> truthy v
      | None \<Rightarrow> key \<in> set object_prototype_keys)"

text \<open>
  \<open>obj[key] = v\<close> on a plain object: an existing own property keeps its place, a new one
  is enumerated last.
\<close>

definition js_set :: "(string \<times> json) list \<Rightarrow> string \<Rightarrow> json \<Rightarrow> (string \<times> json) list" where
  "js_set obj key v = AList.update key v obj"

section \<open>The file system\<close>

text \<open>
  The file system is a finite table from paths to nodes, in the order in which a
  directory listing or a glob enumerates them. A file carries what the tools read from
  it: raw bytes, a parsed JSON document (the result of \<open>JSON.parse\<close> of its text), a
  generated text, or the entries a valid archive unpacks to (an archive that cannot be
  unpacked is a file of raw bytes).
\<close>

datatype node =
    Dir
  | File "nat list"
  | JsonFile json
  | TextFile string
  | Archive "(path \<times> node) list"

type_synonym filesystem = "(path \<times> node) list"

definition pathExists :: "filesystem \<Rightarrow> path \<Rightarrow> bool" where
  "pathExists fs p = (p = [] \<or> map_of fs p \<noteq> None)"

definition isDirectory :: "filesystem \<Rightarrow> path \<Rightarrow> bool" where
  "isDirectory fs p = (p = [] \<or> map_of fs p = Some Dir)"

definition isFile :: "filesystem \<Rightarrow> path \<Rightarrow> bool" where
  "isFile fs p = (p \<noteq> [] \<and> map_of fs p \<noteq> None \<and> map_of fs p \<noteq> Some Dir)"

definition is_under :: "path \<Rightarrow> path \<Rightarrow> bool" where
  "is_under p root = (take (length root) p = root)"

text \<open>The names in a directory, as \<open>readdir\<close> lists them.\<close>

definition readdir :: "filesystem \<Rightarrow> path \<Rightarrow> string list" where
  "readdir fs d = map last (filter (\<lambda>p. p \<noteq> [] \<and> butlast p = d) (map fst fs))"

text \<open>
  \<open>glob(path.join(dir, '*' + suffix))\<close> and \<open>glob(path.join(dir, prefix + '*'))\<close>: the
  entries of \<open>dir\<close> whose name matches; the star does not match a leading dot. The match is
  case-sensitive (the default of the glob package on Linux).
\<close>

definition glob_suffix :: "filesystem \<Rightarrow> path \<Rightarrow> string \<Rightarrow> path list" where
  "glob_suffix fs d sfx =
     map (\<lambda>n. d @ [n])
       (filter (\<lambda>n. endsWith n sfx \<and> \<not> startsWith n ''.'') (readdir fs d))"

definition glob_prefix :: "filesystem \<Rightarrow> path \<Rightarrow> string \<Rightarrow> path list" where
  "glob_prefix fs d pfx =
     map (\<lambda>n. d @ [n]) (filter (\<lambda>n. startsWith n pfx) (readdir fs d))"

text \<open>Writing one node; \<open>mkdir -p\<close>; removing a tree; copying a file or a tree.\<close>

definition fs_put :: "filesystem \<Rightarrow> path \<Rightarrow> node \<Rightarrow> filesystem" where
  "fs_put fs p n = AList.update p n fs"

definition ancestors_and_self :: "path \<Rightarrow> path list" where
  "ancestors_and_self p = map (\<lambda>k. take k p) [1..<Suc (length p)]"

definition mkdirp :: "filesystem \<Rightarrow> path \<Rightarrow> filesystem" where
  "mkdirp fs p =
     fold (\<lambda>q fs'. if pathExists fs' q then fs' else fs_put fs' q Dir) (ancestors_and_self p) fs"

definition fs_remove :: "filesystem \<Rightarrow> path \<Rightarrow> filesystem" where
  "fs_remove fs p = filter (\<lambda>(q, n). \<not> is_under q p) fs"

text \<open>The entries below \<open>root\<close> (and \<open>root\<close> itself, as the empty path), relative to it.\<close>

definition subtree :: "filesystem \<Rightarrow> path \<Rightarrow> (path \<times> node) list" where
  "subtree fs root =
     map (\<lambda>(q, n). (drop (length root) q, n)) (filter (\<lambda>(q, n). is_under q root) fs)"

definition put_tree :: "filesystem \<Rightarrow> path \<Rightarrow> (path \<times> node) list \<Rightarrow> filesystem" where
  "put_tree fs dst entries = fold (\<lambda>(r, n) fs'. fs_put fs' (dst @ r) n) entries fs"

section \<open>Effects: the file system, the console, failing operations\<close>

text \<open>
  The warnings and errors a tool prints (its progress lines are not recorded).
\<close>

datatype message =
    FewerPackages nat int
  | SkippingDuplicate string
  | PackageNotFound path
  | ExpectedFolder path
  | FoundCompressed string
  | NoImagesFolder string
  | NoMetadataInPackage string
  | NoMetadataFiles
  | ErrorParsing string
  | WarningProcessing string
  | FailedToExtract string
  | ErrorExtracting string
  | TarGzNeedsSystemTools string
  | CouldNotReadInput
  | ErrorLoading string
  | ErrorCompressing string
  | OutputExists path
  | ErrorMessage js_error

text \<open>
  A run threads the file system and the console. Every operation that writes to the file
  system may fail with an I/O error: \<open>faults\<close> says, for the write operations still to
  come, which of them fail (none once the list is exhausted); an operation also fails
  when its source is missing. A write operation is atomic here: it takes effect wholly
  or not at all. \<open>now\<close> is the time that \<open>new Date().toISOString()\<close> reads.
\<close>

record world =
  files :: filesystem
  console :: "message list"
  faults :: "bool list"
  now :: string

type_synonym ('a, 'z) io = "'z world_scheme \<Rightarrow> (js_error + 'a) \<times> 'z world_scheme"

definition io_return :: "'a \<Rightarrow> ('a, 'z) io" where
  "io_return x w = (Inr x, w)"

definition io_throw :: "js_error \<Rightarrow> ('a, 'z) io" where
  "io_throw e w = (Inl e, w)"

definition io_bind :: "('a, 'z) io \<Rightarrow> ('a \<Rightarrow> ('b, 'z) io) \<Rightarrow> ('b, 'z) io" where
  "io_bind m f w = (case m w of (Inl e, w') \<Rightarrow> (Inl e, w') | (Inr x, w') \<Rightarrow> f x w')"

definition io_then :: "(unit, 'z) io \<Rightarrow> ('b, 'z) io \<Rightarrow> ('b, 'z) io" where
  "io_then m k = io_bind m (\<lambda>_. k)"

text \<open>\<open>try { m } catch (error) { h(error) }\<close>\<close>

definition io_catch :: "('a, 'z) io \<Rightarrow> (js_error \<Rightarrow> ('a, 'z) io) \<Rightarrow> ('a, 'z) io" where
  "io_catch m h w = (case m w of (Inl e, w') \<Rightarrow> h e w' | (Inr x, w') \<Rightarrow> (Inr x, w'))"

text \<open>
  \<open>try { m } finally { c }\<close>: the cleanup runs after \<open>m\<close> whether \<open>m\<close> returned or threw,
  and an error of the cleanup itself replaces the outcome of \<open>m\<close>.
\<close>

definition io_finally :: "('a, 'z) io \<Rightarrow> (unit, 'z) io \<Rightarrow> ('a, 'z) io" where
  "io_finally m c w =
     (case m w of (r, w') \<Rightarrow>
        (case c w' of (Inl e, w'') \<Rightarrow> (Inl e, w'') | (Inr u, w'') \<Rightarrow> (r, w'')))"

definition io_log :: "message \<Rightarrow> (unit, 'z) io" where
  "io_log m w = (Inr (), w\<lparr>console := console w @ [m]\<rparr>)"

definition io_when :: "bool \<Rightarrow> (unit, 'z) io \<Rightarrow> (unit, 'z) io" where
  "io_when b m = (if b then m else io_return ())"

text \<open>Reading the file system.\<close>

definition io_read :: "(filesystem \<Rightarrow> 'a) \<Rightarrow> ('a, 'z) io" where
  "io_read f w = (Inr (f (files w)), w)"

text \<open>
  One write operation: it fails when the fault schedule says so or when the operation
  itself cannot be done (\<open>None\<close>).
\<close>

definition fs_write :: "(filesystem \<Rightarrow> filesystem option) \<Rightarrow> (unit, 'z) io" where
  "fs_write f w =
     (let failing = (case faults w of [] \<Rightarrow> False | b # bs \<Rightarrow> b);
          w' = w\<lparr>faults := tl (faults w)\<rparr>
      in if failing then (Inl IOError, w')
         else (case f (files w) of
                 None \<Rightarrow> (Inl IOError, w')
               | Some fs' \<Rightarrow> (Inr (), w'\<lparr>files := fs'\<rparr>)))"

text \<open>\<open>for (const x of xs) { await f(x) }\<close>, and the same loop collecting results.\<close>

fun io_forEach :: "('a \<Rightarrow> (unit, 'z) io) \<Rightarrow> 'a list \<Rightarrow> (unit, 'z) io" where
  "io_forEach f [] = io_return ()"
| "io_forEach f (x # xs) = io_then (f x) (io_forEach f xs)"

fun io_collect :: "('a \<Rightarrow> ('b, 'z) io) \<Rightarrow> 'a list \<Rightarrow> ('b list, 'z) io" where
  "io_collect f [] = io_return []"
| "io_collect f (x # xs) =
     io_bind (f x) (\<lambda>y. io_bind (io_collect f xs) (\<lambda>ys. io_return (y # ys)))"

text \<open>The write operations of \<open>fs\<close> and \<open>fs-extra\<close> that the tools call.\<close>

definition ensureDir :: "path \<Rightarrow> (unit, 'z) io" where
  "ensureDir p = fs_write (\<lambda>fs. Some (mkdirp fs p))"


text \<open>
  \<open>fs-extra\<close>'s \<open>copy\<close>: a file or a whole tree, creating the target's parent directories
  and overwriting what is there.
\<close>

definition copy :: "path \<Rightarrow> path \<Rightarrow> (unit, 'z) io" where
  "copy src dst =
     fs_write (\<lambda>fs. if map_of fs src = None then None
                else Some (put_tree (mkdirp fs (butlast dst)) dst (subtree fs src)))"

definition writeFile :: "path \<Rightarrow> node \<Rightarrow> (unit, 'z) io" where
  "writeFile p n = fs_write (\<lambda>fs. Some (fs_put fs p n))"

definition remove :: "path \<Rightarrow> (unit, 'z) io" where
  "remove p = fs_write (\<lambda>fs. Some (fs_remove fs p))"

section \<open>The splitters: discovery, packages, command line\<close>

text \<open>
  One record serves \<open>WorkSplitter\<close> (images) and \<open>DocumentSplitter\<close> (documents), whose
  fields are the same. \<open>moduleDir\<close> is the directory of the script, from which the project
  root is searched upwards; the image splitter stores the root it found in its
  constructor, the document splitter searches again for every package.
\<close>

record splitter =
  sourceFolder :: path
  outputFolder :: path
  numSplits :: int
  supportedExtensions :: "string list"
  htmlFiles :: "string list"
  moduleDir :: path
  projectRoot :: path

definition image_extensions :: "string list" where
  "image_extensions = [''.jpg'', ''.jpeg'', ''.png'', ''.gif'', ''.webp'', ''.bmp'']"




text \<open>
  \<open>findProjectRoot\<close>: walk up from the script's directory until a directory holds all the
  HTML files; the file system root itself is never tried.
\<close>

function findProjectRoot :: "filesystem \<Rightarrow> string list \<Rightarrow> path \<Rightarrow> js_error + path" where
  "findProjectRoot fs htmls current =
     (if current = [] then Inl (Error ''Could not find project root with HTML files'')
      else if list_all (\<lambda>htmlFile. pathExists fs (current @ [htmlFile])) htmls then Inr current
      else findProjectRoot fs htmls (butlast current))"
  by pat_completeness auto
termination
  by (relation "measure (\<lambda>(fs, htmls, current). length current)") auto

declare findProjectRoot.simps [simp del]



text \<open>
  \<open>getImageFiles\<close>: for every extension a lower-case and an upper-case glob pattern, the
  matches of all patterns without duplicates, sorted.
\<close>

definition glob_patterns :: "path \<Rightarrow> string list \<Rightarrow> (path \<times> string) list" where
  "glob_patterns d exts = concat (map (\<lambda>ext. [(d, ext), (d, toUpperCase ext)]) exts)"

definition glob_all :: "filesystem \<Rightarrow> (path \<times> string) list \<Rightarrow> path list" where
  "glob_all fs patterns = concat (map (\<lambda>(d, sfx). glob_suffix fs d sfx) patterns)"



subsection \<open>Creating one package\<close>

definition package_name :: "string \<Rightarrow> nat \<Rightarrow> string" where
  "package_name pfx chunkId = pfx @ padStart0 3 (string_of_nat chunkId)"

definition WorkSplitter_manifest :: "splitter \<Rightarrow> string \<Rightarrow> nat \<Rightarrow> path list \<Rightarrow> json" where
  "WorkSplitter_manifest s created chunkId imageChunk =
     JObj [(''package_info'',
              JObj [(''id'', JNum (int chunkId)),
                    (''name'', JStr (package_name ''work-package-'' chunkId)),
                    (''created'', JStr created),
                    (''total_packages'', JNum (numSplits s)),
                    (''image_count'', JNum (int (length imageChunk)))]),
           (''html_files'', JArr (map JStr (htmlFiles s))),
           (''images'', JArr (map (\<lambda>img. JStr (basename img)) imageChunk)),
           (''instructions'',
              JObj [(''1'', JStr ''Open any of the HTML files in your browser''),
                    (''2'', JStr ''Load images from the 'images' folder''),
                    (''3'', JStr ''Click 'AI Analyze' to process your assigned images''),
                    (''4'', JStr ''Export metadata when analysis is complete''),
                    (''5'', JStr ''Share the exported JSON file back to the project lead'')])]"

definition WorkSplitter_createManifest ::
  "splitter \<Rightarrow> path \<Rightarrow> nat \<Rightarrow> path list \<Rightarrow> (unit, 'z) io" where
  "WorkSplitter_createManifest s packagePath chunkId imageChunk w =
     writeFile (packagePath @ [''package-manifest.json''])
       (JsonFile (WorkSplitter_manifest s (now w) chunkId imageChunk)) w"

definition copy_if_exists :: "path \<Rightarrow> path \<Rightarrow> (unit, 'z) io" where
  "copy_if_exists src dst =
     io_bind (io_read (\<lambda>fs. pathExists fs src)) (\<lambda>found. io_when found (copy src dst))"


definition DocumentSplitter_manifest :: "splitter \<Rightarrow> string \<Rightarrow> nat \<Rightarrow> path list \<Rightarrow> json" where
  "DocumentSplitter_manifest s created chunkId documentChunk =
     JObj [(''package_info'',
              JObj [(''id'', JNum (int chunkId)),
                    (''name'', JStr (package_name ''docu-package-'' chunkId)),
                    (''created'', JStr created),
                    (''total_packages'', JNum (numSplits s)),
                    (''document_count'', JNum (int (length documentChunk)))]),
           (''html_files'', JArr (map JStr (htmlFiles s))),
           (''documents'', JArr (map (\<lambda>doc. JStr (basename doc)) documentChunk)),
           (''instructions'',
              JObj [(''1'', JStr ''Open ai_docu.html in your browser''),
                    (''2'', JStr ''Load documents from the 'documents' folder''),
                    (''3'', JStr ''Select your preferred AI model''),
                    (''4'', JStr ''Click 'AI Analyze' to process your assigned documents''),
                    (''5'', JStr ''Export metadata when analysis is complete''),
                    (''6'', JStr ''Share the exported JSON file back to the project lead'')])]"

definition DocumentSplitter_createManifest ::
  "splitter \<Rightarrow> path \<Rightarrow> nat \<Rightarrow> path list \<Rightarrow> (unit, 'z) io" where
  "DocumentSplitter_createManifest s packagePath chunkId documentChunk w =
     writeFile (packagePath @ [''package-manifest.json''])
       (JsonFile (DocumentSplitter_manifest s (now w) chunkId documentChunk)) w"




subsection \<open>The split run and the command line\<close>






definition exit_with :: "js_error \<Rightarrow> ('a, 'z) io" where
  "exit_with e = io_then (io_log (ErrorMessage e)) (io_throw e)"




section \<open>The image joiner: merging metadata documents\<close>

text \<open>
  The consolidated metadata document of \<open>WorkJoiner\<close>. \<open>totalImages\<close> is a number as long
  as only numbers (and \<open>true\<close>) were added to it; once a document contributes a string, an
  array or an object, JavaScript's \<open>+=\<close> concatenates and the total becomes a text, whose
  characters are not modelled.
\<close>

datatype total = Total int | TotalText

record consolidation =
  source_files :: "string list"
  packages_merged :: nat
  merge_date :: string
  models_used :: "json list"
  total_analyzed_images :: nat

record consolidated_metadata =
  version :: string
  timestamp :: string
  appName :: string
  consolidation_info :: consolidation
  totalImages :: total
  aiEnabled :: bool
  captions :: "(string \<times> json) list"
  aiData :: "(string \<times> json) list"

text \<open>
  \<open>Set.prototype.add\<close> on values that come out of \<open>JSON.parse\<close>: primitive values are
  compared by value, every parsed object or array is a new element.
\<close>

fun is_primitive :: "json \<Rightarrow> bool" where
  "is_primitive (JArr vs) = False"
| "is_primitive (JObj kvs) = False"
| "is_primitive v = True"

definition set_add :: "json list \<Rightarrow> json \<Rightarrow> json list" where
  "set_add s v = (if is_primitive v \<and> v \<in> set s then s else s @ [v])"

text \<open>\<open>imageCount += data.totalImages\<close>, for a truthy \<open>data.totalImages\<close>.\<close>

fun add_total :: "total \<Rightarrow> json \<Rightarrow> total" where
  "add_total (Total n) (JNum k) = Total (n + k)"
| "add_total (Total n) (JBool b) = Total (n + (if b then 1 else 0))"
| "add_total t v = TotalText"

text \<open>
  The accumulators of \<open>mergeMetadata\<close>: \<open>merged.captions\<close>, \<open>merged.aiData\<close>, the set
  \<open>modelsUsed\<close> in insertion order, and \<open>imageCount\<close>.
\<close>

record merge_state =
  merged_captions :: "(string \<times> json) list"
  merged_aiData :: "(string \<times> json) list"
  modelsUsed :: "json list"
  imageCount :: total

text \<open>
  \<^verbatim>\<open>for (const [imgName, caption] of Object.entries(data.captions))
     if (!merged.captions[imgName]) merged.captions[imgName] = caption;\<close>
\<close>

fun merge_captions :: "(string \<times> json) list \<Rightarrow> (string \<times> json) list \<Rightarrow> (string \<times> json) list" where
  "merge_captions merged [] = merged"
| "merge_captions merged ((imgName, caption) # entries) =
     merge_captions
       (if \<not> has_truthy merged imgName then js_set merged imgName caption else merged) entries"

text \<open>
  The loop over \<open>Object.entries(data.aiData)\<close>: first survives, and the model named by
  every record, kept or skipped, is added to \<open>modelsUsed\<close>. Reading \<open>.modelUsed\<close> of a
  \<open>null\<close> record throws; what has been merged up to there stays.
\<close>

fun merge_aiData ::
  "(string \<times> json) list \<times> json list \<Rightarrow> (string \<times> json) list
   \<Rightarrow> js_error option \<times> (string \<times> json) list \<times> json list" where
  "merge_aiData (merged, models) [] = (None, merged, models)"
| "merge_aiData (merged, models) ((imgName, record) # entries) =
     (let merged' = (if \<not> has_truthy merged imgName then js_set merged imgName record
                     else merged)
      in case js_prop record ''modelUsed'' of
           Inl e \<Rightarrow> (Some e, merged', models)
         | Inr None \<Rightarrow> merge_aiData (merged', models) entries
         | Inr (Some model) \<Rightarrow>
             merge_aiData (merged', if truthy model then set_add models model else models)
               entries)"

text \<open>
  The body of the \<open>try\<close> block for one parsed document; the first component is the error
  that ended it early, if any.
\<close>

definition merge_document :: "merge_state \<Rightarrow> json \<Rightarrow> js_error option \<times> merge_state" where
  "merge_document st data =
     (case js_prop data ''captions'' of
        Inl e \<Rightarrow> (Some e, st)
      | Inr c \<Rightarrow>
          (let st1 = (case c of
                        Some cs \<Rightarrow>
                          if truthy cs
                          then st\<lparr>merged_captions := merge_captions (merged_captions st) (js_entries cs)\<rparr>
                          else st
                      | None \<Rightarrow> st)
           in case js_prop data ''aiData'' of
                Inl e \<Rightarrow> (Some e, st1)
              | Inr a \<Rightarrow>
                  (let (thrown, ai, models) =
                         (case a of
                            Some ad \<Rightarrow>
                              if truthy ad
                              then merge_aiData (merged_aiData st1, modelsUsed st1) (js_entries ad)
                              else (None, merged_aiData st1, modelsUsed st1)
                          | None \<Rightarrow> (None, merged_aiData st1, modelsUsed st1));
                       st2 = st1\<lparr>merged_aiData := ai, modelsUsed := models\<rparr>
                   in case thrown of
                        Some e \<Rightarrow> (Some e, st2)
                      | None \<Rightarrow>
                          (case js_prop data ''totalImages'' of
                             Inl e \<Rightarrow> (Some e, st2)
                           | Inr None \<Rightarrow> (None, st2)
                           | Inr (Some t) \<Rightarrow>
                               (None, if truthy t
                                      then st2\<lparr>imageCount := add_total (imageCount st2) t\<rparr>
                                      else st2)))))"

text \<open>
  \<open>fs.readJSON\<close>: a file whose text is not JSON gives a \<open>SyntaxError\<close>, a directory or a
  missing file another error.
\<close>

definition readJSON :: "filesystem \<Rightarrow> path \<Rightarrow> js_error + json" where
  "readJSON fs p =
     (case map_of fs p of
        Some (JsonFile j) \<Rightarrow> Inr j
      | Some Dir \<Rightarrow> Inl IOError
      | None \<Rightarrow> Inl IOError
      | Some other \<Rightarrow> Inl SyntaxError)"

text \<open>
  The loop of \<open>mergeMetadata\<close> over the metadata files: a file that cannot be read or
  whose processing throws is reported and the loop goes on with the next file.
\<close>

definition report_merge_error :: "path \<Rightarrow> js_error \<Rightarrow> (unit, 'z) io" where
  "report_merge_error metaFile e =
     io_log (if e = SyntaxError then ErrorParsing (basename metaFile)
             else WarningProcessing (basename metaFile))"

fun mergeMetadata_loop :: "merge_state \<Rightarrow> path list \<Rightarrow> (merge_state, 'z) io" where
  "mergeMetadata_loop st [] = io_return st"
| "mergeMetadata_loop st (metaFile # metadataFiles) =
     io_bind (io_read (\<lambda>fs. readJSON fs metaFile)) (\<lambda>loaded.
       case loaded of
         Inl e \<Rightarrow> io_then (report_merge_error metaFile e) (mergeMetadata_loop st metadataFiles)
       | Inr data \<Rightarrow>
           (case merge_document st data of
              (Some e, st') \<Rightarrow>
                io_then (report_merge_error metaFile e) (mergeMetadata_loop st' metadataFiles)
            | (None, st') \<Rightarrow> mergeMetadata_loop st' metadataFiles))"

definition WorkJoiner_mergeMetadata :: "path list \<Rightarrow> (consolidated_metadata, 'z) io" where
  "WorkJoiner_mergeMetadata metadataFiles w =
     io_bind
       (mergeMetadata_loop
          \<lparr>merged_captions = [], merged_aiData = [], modelsUsed = [], imageCount = Total 0\<rparr>
          metadataFiles)
       (\<lambda>st. io_return
          \<lparr>version = ''2.0-Consolidated'',
           timestamp = now w,
           appName = ''AI Image Viewer - Consolidated Results'',
           consolidation_info =
             \<lparr>source_files = map basename metadataFiles,
              packages_merged = length (remdups (map (\<lambda>f. basename (dirname f)) metadataFiles)),
              merge_date = now w,
              models_used = modelsUsed st,
              total_analyzed_images = length (merged_aiData st)\<rparr>,
           totalImages = imageCount st,
           aiEnabled = True,
           captions = merged_captions st,
           aiData = merged_aiData st\<rparr>) w"

text \<open>The document as \<open>writeJSON\<close> stores it.\<close>

definition total_json :: "total \<Rightarrow> json" where
  "total_json t = (case t of Total n \<Rightarrow> JNum n | TotalText \<Rightarrow> JStr ''(text)'')"

definition metadata_json :: "consolidated_metadata \<Rightarrow> json" where
  "metadata_json md =
     JObj [(''version'', JStr (version md)),
           (''timestamp'', JStr (timestamp md)),
           (''appName'', JStr (appName md)),
           (''consolidation_info'',
              JObj [(''source_files'', JArr (map JStr (source_files (consolidation_info md)))),
                    (''packages_merged'', JNum (int (packages_merged (consolidation_info md)))),
                    (''merge_date'', JStr (merge_date (consolidation_info md))),
                    (''models_used'', JArr (models_used (consolidation_info md))),
                    (''total_analyzed_images'',
                       JNum (int (total_analyzed_images (consolidation_info md))))]),
           (''totalImages'', total_json (totalImages md)),
           (''aiEnabled'', JBool (aiEnabled md)),
           (''captions'', JObj (captions md)),
           (''aiData'', JObj (aiData md))]"

section \<open>The image joiner: packages, images, output\<close>

text \<open>
  The fields of a \<open>WorkJoiner\<close> that never change are in \<open>joiner\<close>; \<open>packagePaths\<close> and
  \<open>tempDir\<close>, which the run assigns, extend the world, so that they survive an exception.
  \<open>tmpdir\<close> is \<open>os.tmpdir()\<close>, and \<open>random_names\<close> are the suffixes that \<open>mkdtemp\<close> will
  try.
\<close>

record joiner =
  outputPath :: path
  joiner_extensions :: "string list"
  joiner_htmlFiles :: "string list"
  joiner_projectRoot :: path
  tmpdir :: path

record joiner_world = world +
  packagePaths :: "path list"
  tempDir :: "path option"
  random_names :: "string list"

type_synonym 'a join_io = "('a, unit joiner_world_ext) io"

definition joiner_image_html :: "string list" where
  "joiner_image_html = [''ai_image.html'']"

definition WorkJoiner :: "filesystem \<Rightarrow> path \<Rightarrow> path \<Rightarrow> path \<Rightarrow> js_error + joiner" where
  "WorkJoiner fs dir tmp output =
     (case findProjectRoot fs joiner_image_html dir of
        Inl e \<Rightarrow> Inl e
      | Inr root \<Rightarrow>
          Inr \<lparr>outputPath = output, joiner_extensions = image_extensions,
               joiner_htmlFiles = joiner_image_html, joiner_projectRoot = root, tmpdir = tmp\<rparr>)"

subsection \<open>Archives and the temporary directory\<close>

text \<open>
  \<open>mkdtemp(prefix)\<close> creates a directory that did not exist, named by the prefix and the
  first random suffix that is free; it fails when it finds none.
\<close>

definition mkdtemp :: "path \<Rightarrow> string \<Rightarrow> path join_io" where
  "mkdtemp dir pfx w =
     (let free = dropWhile (\<lambda>sfx. pathExists (files w) (dir @ [pfx @ sfx])) (random_names w)
      in case free of
           [] \<Rightarrow> (Inl IOError, w\<lparr>random_names := []\<rparr>)
         | sfx # rest \<Rightarrow>
             io_then (fs_write (\<lambda>fs. Some (fs_put fs (dir @ [pfx @ sfx]) Dir)))
               (io_return (dir @ [pfx @ sfx])) (w\<lparr>random_names := rest\<rparr>))"

text \<open>\<open>tar.x({file, cwd})\<close>: unpack a valid archive below \<open>cwd\<close>.\<close>

definition tar_x :: "path \<Rightarrow> path \<Rightarrow> (unit, 'z) io" where
  "tar_x file cwd =
     fs_write (\<lambda>fs. case map_of fs file of
                  Some (Archive entries) \<Rightarrow> Some (put_tree fs cwd entries)
                | other \<Rightarrow> None)"

definition directories :: "filesystem \<Rightarrow> path list \<Rightarrow> path list" where
  "directories fs ps = filter (isDirectory fs) ps"

text \<open>
  The first loop of \<open>detectAndExtractArchives\<close>. Its third branch repeats the condition
  of the second and is never taken: an input that is a directory contributes the
  archives and the \<open>work-package-*\<close> directories inside it, never itself.
\<close>

fun scan_inputs :: "filesystem \<Rightarrow> path list \<Rightarrow> path list \<times> path list" where
  "scan_inputs fs [] = ([], [])"
| "scan_inputs fs (inputPath # inputs) =
     (let (extractedPaths, archiveFiles) = scan_inputs fs inputs
      in if isFile fs inputPath \<and> endsWith (basename inputPath) ''.tar.gz''
         then (extractedPaths, inputPath # archiveFiles)
         else if pathExists fs inputPath \<and> isDirectory fs inputPath
         then (directories fs (glob_prefix fs inputPath ''work-package-'') @ extractedPaths,
               glob_suffix fs inputPath ''.tar.gz'' @ archiveFiles)
         else if pathExists fs inputPath \<and> isDirectory fs inputPath
         then (inputPath # extractedPaths, archiveFiles)
         else (extractedPaths, archiveFiles))"

text \<open>
  The second loop: every archive is unpacked into the temporary directory, and after each
  one all the \<open>work-package-*\<close> directories found there are appended; an archive that
  cannot be unpacked is reported and skipped.
\<close>

fun extract_archives :: "path \<Rightarrow> path list \<Rightarrow> path list join_io" where
  "extract_archives tmp [] = io_return []"
| "extract_archives tmp (archiveFile # archiveFiles) =
     io_bind
       (io_catch
          (io_then (tar_x archiveFile tmp)
             (io_read (\<lambda>fs. directories fs (glob_prefix fs tmp ''work-package-''))))
          (\<lambda>error. io_then (io_log (FailedToExtract (basename archiveFile))) (io_return [])))
       (\<lambda>found. io_bind (extract_archives tmp archiveFiles)
                    (\<lambda>rest. io_return (found @ rest)))"

definition detectAndExtractArchives :: "joiner \<Rightarrow> path list join_io" where
  "detectAndExtractArchives j =
     (\<lambda>w. io_bind (io_read (\<lambda>fs. scan_inputs fs (packagePaths w))) (\<lambda>(extractedPaths, archiveFiles).
       if length archiveFiles > 0
       then io_bind (mkdtemp (tmpdir j) ''ai-image-join-'') (\<lambda>tmp.
              io_then (\<lambda>w'. (Inr (), w'\<lparr>tempDir := Some tmp\<rparr>))
                (io_bind (extract_archives tmp archiveFiles)
                   (\<lambda>unpacked. io_return (extractedPaths @ unpacked))))
       else io_return extractedPaths) w)"

definition cleanupTempFiles :: "unit join_io" where
  "cleanupTempFiles w =
     (case tempDir w of
        None \<Rightarrow> io_return () w
      | Some tmp \<Rightarrow> (if pathExists (files w) tmp then remove tmp w else io_return () w))"

subsection \<open>Validation, collection, metadata discovery\<close>

fun validatePackages_loop :: "path list \<Rightarrow> (path list, 'z) io" where
  "validatePackages_loop [] = io_return []"
| "validatePackages_loop (packagePath # paths) =
     io_bind (io_read (\<lambda>fs. (pathExists fs packagePath, isDirectory fs packagePath,
                              pathExists fs (packagePath @ [''images''])))) (\<lambda>(found, isDir, hasImages).
       if \<not> found
       then io_then (io_log (PackageNotFound packagePath)) (validatePackages_loop paths)
       else if \<not> isDir
       then (if extname (basename packagePath) = ''.gz'' \<or> extname (basename packagePath) = ''.zip''
             then io_then (io_log (FoundCompressed (basename packagePath)))
                    (validatePackages_loop paths)
             else io_then (io_log (ExpectedFolder packagePath)) (validatePackages_loop paths))
       else if \<not> hasImages
       then io_then (io_log (NoImagesFolder (basename packagePath))) (validatePackages_loop paths)
       else io_bind (validatePackages_loop paths) (\<lambda>valid. io_return (packagePath # valid)))"

definition validatePackages :: "path list join_io" where
  "validatePackages w = validatePackages_loop (packagePaths w) w"

text \<open>
  \<open>collectImages\<close>: the inner loop over the glob matches of one package, then the loop
  over the packages. \<open>seenNames\<close> and \<open>allImages\<close> grow together; a name seen before is
  skipped with a warning.
\<close>

fun collect_package ::
  "path list \<times> string list \<Rightarrow> path list \<Rightarrow> (path list \<times> string list, 'z) io" where
  "collect_package (allImages, seenNames) [] = io_return (allImages, seenNames)"
| "collect_package (allImages, seenNames) (imgPath # packageImages) =
     (let originalName = basename imgPath
      in if originalName \<in> set seenNames
         then io_then (io_log (SkippingDuplicate originalName))
                (collect_package (allImages, seenNames) packageImages)
         else collect_package (allImages @ [imgPath], seenNames @ [originalName]) packageImages)"

fun collectImages_loop ::
  "joiner \<Rightarrow> path list \<times> string list \<Rightarrow> path list \<Rightarrow> (path list \<times> string list, 'z) io" where
  "collectImages_loop j acc [] = io_return acc"
| "collectImages_loop j acc (packagePath # packages) =
     io_bind (io_read (\<lambda>fs. (pathExists fs (packagePath @ [''images'']),
                              glob_all fs (glob_patterns (packagePath @ [''images''])
                                             (joiner_extensions j))))) (\<lambda>(hasImages, packageImages).
       if \<not> hasImages then collectImages_loop j acc packages
       else io_bind (collect_package acc packageImages)
              (\<lambda>acc'. collectImages_loop j acc' packages))"

definition collectImages :: "joiner \<Rightarrow> path list \<Rightarrow> (path list, 'z) io" where
  "collectImages j packages =
     io_bind (collectImages_loop j ([], []) packages) (\<lambda>(allImages, seenNames). io_return allImages)"

definition is_metadata_file :: "path \<Rightarrow> bool" where
  "is_metadata_file jsonFile =
     (str_includes (toLowerCase (basename jsonFile)) ''metadata''
      \<and> basename jsonFile \<noteq> ''package-manifest.json'')"

fun findMetadataFiles :: "path list \<Rightarrow> (path list, 'z) io" where
  "findMetadataFiles [] = io_return []"
| "findMetadataFiles (packagePath # packages) =
     io_bind (io_read (\<lambda>fs. filter is_metadata_file (glob_suffix fs packagePath ''.json'')))
       (\<lambda>foundInPackage.
          io_then (io_when (length foundInPackage = 0)
                     (io_log (NoMetadataInPackage (basename packagePath))))
            (io_bind (findMetadataFiles packages)
               (\<lambda>rest. io_return (foundInPackage @ rest))))"

subsection \<open>The consolidated package, the join run, the command line\<close>

text \<open>The text of the report is not modelled, only that the file is written.\<close>

definition createSummaryReport :: "joiner \<Rightarrow> consolidated_metadata \<Rightarrow> (unit, 'z) io" where
  "createSummaryReport j metadata =
     writeFile (outputPath j @ [''consolidation-report.txt''])
       (TextFile ''AI Image Viewer - Consolidation Report'')"

definition createConsolidatedPackage ::
  "joiner \<Rightarrow> path list \<Rightarrow> consolidated_metadata \<Rightarrow> (path, 'z) io" where
  "createConsolidatedPackage j images metadata =
     (let imagesDst = outputPath j @ [''images'']
      in io_then (ensureDir (outputPath j))
        (io_then (io_forEach (\<lambda>htmlFile.
                     copy_if_exists (joiner_projectRoot j @ [htmlFile]) (outputPath j @ [htmlFile]))
                   (joiner_htmlFiles j))
        (io_then (copy_if_exists (joiner_projectRoot j @ [''docs'']) (outputPath j @ [''docs'']))
        (io_then (ensureDir imagesDst)
        (io_then (io_forEach (\<lambda>imgPath. copy imgPath (imagesDst @ [basename imgPath])) images)
        (io_then (writeFile (outputPath j @ [''consolidated-metadata.json''])
                    (JsonFile (metadata_json metadata)))
        (io_then (createSummaryReport j metadata)
        (io_return (outputPath j)))))))))"

text \<open>The document written when no metadata file was found in any package.\<close>

definition images_only_metadata :: "string \<Rightarrow> nat \<Rightarrow> nat \<Rightarrow> consolidated_metadata" where
  "images_only_metadata time validCount imageTotal =
     \<lparr>version = ''2.0-Consolidated'',
      timestamp = time,
      appName = ''AI Image Viewer - Consolidated Results'',
      consolidation_info =
        \<lparr>source_files = [], packages_merged = validCount, merge_date = time,
         models_used = [], total_analyzed_images = 0\<rparr>,
      totalImages = Total (int imageTotal),
      aiEnabled = False,
      captions = [],
      aiData = []\<rparr>"

text \<open>The body of the \<open>try\<close> block of \<open>join()\<close>.\<close>

definition join_body :: "joiner \<Rightarrow> path join_io" where
  "join_body j =
     io_bind (detectAndExtractArchives j) (\<lambda>extractedPaths.
     io_then (\<lambda>w. (Inr (), w\<lparr>packagePaths := extractedPaths\<rparr>))
    (io_bind validatePackages (\<lambda>validPackages.
       if length validPackages = 0 then io_throw (Error ''No valid packages found to merge'')
       else
     io_bind (collectImages j validPackages) (\<lambda>allImages.
     io_bind (findMetadataFiles validPackages) (\<lambda>metadataFiles.
     io_bind (if length metadataFiles = 0
              then io_then (io_log NoMetadataFiles)
                     (\<lambda>w. io_return (images_only_metadata (now w) (length validPackages)
                                        (length allImages)) w)
              else WorkJoiner_mergeMetadata metadataFiles) (\<lambda>mergedMetadata.
     createConsolidatedPackage j allImages mergedMetadata))))))"

definition WorkJoiner_join :: "joiner \<Rightarrow> path join_io" where
  "WorkJoiner_join j = io_finally (join_body j) cleanupTempFiles"

text \<open>
  The command line of the image joiner. An existing output directory is removed in both
  branches, with \<open>--force\<close> and without it; without it the script only prints that the
  directory exists.
\<close>

record join_options =
  opt_packages :: "path list"
  opt_join_output :: "path option"
  opt_force :: bool

definition WorkJoiner_main :: "path \<Rightarrow> path \<Rightarrow> path \<Rightarrow> join_options \<Rightarrow> path join_io" where
  "WorkJoiner_main dir tmp output options =
     io_catch
       (io_then
          (io_bind (io_read (\<lambda>fs. pathExists fs output)) (\<lambda>found.
             if found \<and> \<not> opt_force options
             then io_then (io_log (OutputExists output)) (remove output)
             else if found \<and> opt_force options
             then remove output
             else io_return ()))
          (io_bind (io_read (\<lambda>fs. WorkJoiner fs dir tmp output)) (\<lambda>made.
             case made of
               Inl e \<Rightarrow> io_throw e
             | Inr j \<Rightarrow>
                 io_then (\<lambda>w. (Inr (), w\<lparr>packagePaths := opt_packages options, tempDir := None\<rparr>))
                   (WorkJoiner_join j))))
       exit_with"

definition WorkJoiner_cli :: "path \<Rightarrow> path \<Rightarrow> path \<Rightarrow> join_options \<Rightarrow> path join_io" where
  "WorkJoiner_cli dir tmp cwd options =
     (if length (opt_packages options) < 1
      then exit_with (Error ''At least one package must be specified'')
      else WorkJoiner_main dir tmp
             (case opt_join_output options of
                Some out \<Rightarrow> out
              | None \<Rightarrow> cwd @ [''join'', ''consolidated''])
             options)"

section \<open>The document joiner\<close>

record document_joiner =
  inputFolder :: path
  joinedFolder :: path
  supportedMetadataPatterns :: "string list"

definition DocumentJoiner :: "path \<Rightarrow> path \<Rightarrow> document_joiner" where
  "DocumentJoiner input output =
     \<lparr>inputFolder = input, joinedFolder = output,
      supportedMetadataPatterns =
        [''ai-docu-sentencebert-metadata.json'', ''ai-docu-distilbert-metadata.json'',
         ''ai-docu-universal-metadata.json'', ''ai-docu-metadata.json'']\<rparr>"

text \<open>
  \<open>extractCompressedPackages\<close>: every \<open>.zip\<close> in the input folder is unpacked into the
  input folder itself (\<open>zip.extractAllTo(this.inputFolder, true)\<close>); for a \<open>.tar.gz\<close> the
  tool only prints the command to run. No temporary directory is involved.
\<close>

text \<open>\<open>path.basename(name, '.zip')\<close>\<close>

definition strip_zip :: "string \<Rightarrow> string" where
  "strip_zip name =
     (if endsWith name ''.zip'' \<and> name \<noteq> ''.zip'' then take (length name - 4) name else name)"

definition extractAllTo :: "path \<Rightarrow> path \<Rightarrow> (unit, 'z) io" where
  "extractAllTo archivePath target =
     fs_write (\<lambda>fs. case map_of fs archivePath of
                  Some (Archive entries) \<Rightarrow> Some (put_tree fs target entries)
                | other \<Rightarrow> None)"

fun extract_zip_archives :: "document_joiner \<Rightarrow> string list \<Rightarrow> (path list, 'z) io" where
  "extract_zip_archives j [] = io_return []"
| "extract_zip_archives j (archiveFile # archiveFiles) =
     io_bind
       (io_catch
          (if endsWith archiveFile ''.zip''
           then io_then (extractAllTo (inputFolder j @ [archiveFile]) (inputFolder j))
                  (io_bind (io_read (\<lambda>fs. pathExists fs (inputFolder j @ [strip_zip archiveFile])))
                     (\<lambda>found. io_return (if found then [inputFolder j @ [strip_zip archiveFile]]
                                         else [])))
           else io_then (io_log (TarGzNeedsSystemTools archiveFile)) (io_return []))
          (\<lambda>error. io_then (io_log (ErrorExtracting archiveFile)) (io_return [])))
       (\<lambda>found. io_bind (extract_zip_archives j archiveFiles)
                    (\<lambda>rest. io_return (found @ rest)))"

definition extractCompressedPackages :: "document_joiner \<Rightarrow> (path list, 'z) io" where
  "extractCompressedPackages j =
     io_bind (io_read (\<lambda>fs. (isDirectory fs (inputFolder j), readdir fs (inputFolder j))))
       (\<lambda>(readable, names).
          if \<not> readable then io_then (io_log CouldNotReadInput) (io_return [])
          else extract_zip_archives j
                 (filter (\<lambda>file. endsWith file ''.zip'' \<or> endsWith file ''.tar.gz'') names))"

definition hasMetadataFiles :: "filesystem \<Rightarrow> document_joiner \<Rightarrow> path \<Rightarrow> bool" where
  "hasMetadataFiles fs j directory =
     (\<exists>pattern \<in> set (supportedMetadataPatterns j). pathExists fs (directory @ [pattern]))"

definition findPackageDirectories :: "filesystem \<Rightarrow> document_joiner \<Rightarrow> js_error + path list" where
  "findPackageDirectories fs j =
     (if \<not> isDirectory fs (inputFolder j) then Inl (Error ''Error reading input folder'')
      else Inr (sort (map (\<lambda>item. inputFolder j @ [item])
                  (filter (\<lambda>item. isDirectory fs (inputFolder j @ [item])
                            \<and> (startsWith item ''docu-package-''
                                \<or> str_includes (toLowerCase item) ''package''
                                \<or> hasMetadataFiles fs j (inputFolder j @ [item])))
                     (readdir fs (inputFolder j))))))"

definition DocumentJoiner_findMetadataFiles ::
  "filesystem \<Rightarrow> document_joiner \<Rightarrow> path \<Rightarrow> path list" where
  "DocumentJoiner_findMetadataFiles fs j packageDir =
     map (\<lambda>pattern. packageDir @ [pattern])
       (filter (\<lambda>pattern. pathExists fs (packageDir @ [pattern])) (supportedMetadataPatterns j))"

text \<open>
  \<open>loadMetadataFile\<close>: the parsed document must be an object (an array passes
  \<open>typeof data === 'object'\<close> too) with a truthy \<open>metadata\<close> property.
\<close>

definition loadMetadataFile :: "filesystem \<Rightarrow> path \<Rightarrow> js_error + json" where
  "loadMetadataFile fs metadataFile =
     (case readJSON fs metadataFile of
        Inl SyntaxError \<Rightarrow> Inl (Error ''Invalid JSON format'')
      | Inl e \<Rightarrow> Inl (Error ''Error reading file'')
      | Inr data \<Rightarrow>
          (case data of
             JObj kvs \<Rightarrow>
               (case map_of kvs ''metadata'' of
                  Some md \<Rightarrow> if truthy md then Inr data
                             else Inl (Error ''Error reading file: Missing metadata key in JSON'')
                | None \<Rightarrow> Inl (Error ''Error reading file: Missing metadata key in JSON''))
           | JArr vs \<Rightarrow> Inl (Error ''Error reading file: Missing metadata key in JSON'')
           | other \<Rightarrow> Inl (Error ''Error reading file: Metadata must be a JSON object'')))"

text \<open>
  \<open>Object.assign(target, source)\<close> writes every own property of the source into the
  target, a later value replacing an earlier one. (Assigning to the name \<open>__proto__\<close> sets
  the prototype and adds no property.)
\<close>

fun object_assign :: "(string \<times> json) list \<Rightarrow> (string \<times> json) list \<Rightarrow> (string \<times> json) list" where
  "object_assign target [] = target"
| "object_assign target ((key, v) # entries) =
     object_assign (if key = ''__proto__'' then target else js_set target key v) entries"

record docu_export_info =
  export_timestamp :: string
  export_source :: string
  merged_packages :: nat
  total_documents :: nat
  ai_models_used :: "json list"

record docu_merged =
  metadata :: "(string \<times> json) list"
  export_info :: docu_export_info

text \<open>The loop of \<open>DocumentJoiner.mergeMetadata\<close> over the loaded documents.\<close>

fun docu_merge_loop ::
  "(string \<times> json) list \<times> json list \<Rightarrow> json list \<Rightarrow> (string \<times> json) list \<times> json list" where
  "docu_merge_loop (merged, models) [] = (merged, models)"
| "docu_merge_loop (merged, models) (metadataDict # allMetadata) =
     (let merged' = (case js_prop metadataDict ''metadata'' of
                       Inr (Some md) \<Rightarrow> if truthy md then object_assign merged (js_entries md)
                                          else merged
                     | other \<Rightarrow> merged);
          models' = (case js_prop metadataDict ''export_info'' of
                       Inr (Some info) \<Rightarrow>
                         if truthy info
                         then (case js_prop info ''ai_model'' of
                                 Inr (Some model) \<Rightarrow> if truthy model then set_add models model
                                                       else models
                               | other \<Rightarrow> models)
                         else models
                     | other \<Rightarrow> models)
      in docu_merge_loop (merged', models') allMetadata)"

text \<open>\<open>mergeMetadata\<close> returns the empty object \<open>{}\<close> for no documents (\<open>None\<close>).\<close>

definition DocumentJoiner_mergeMetadata :: "string \<Rightarrow> json list \<Rightarrow> docu_merged option" where
  "DocumentJoiner_mergeMetadata time allMetadata =
     (if length allMetadata = 0 then None
      else (let (merged, models) = docu_merge_loop ([], []) allMetadata
            in Some \<lparr>metadata = merged,
                     export_info =
                       \<lparr>export_timestamp = time,
                        export_source = ''AI Docu App - Document Joiner'',
                        merged_packages = length allMetadata,
                        total_documents = length merged,
                        ai_models_used = models\<rparr>\<rparr>))"

definition docu_merged_json :: "docu_merged \<Rightarrow> json" where
  "docu_merged_json md =
     JObj [(''metadata'', JObj (metadata md)),
           (''export_info'',
              JObj [(''timestamp'', JStr (export_timestamp (export_info md))),
                    (''source'', JStr (export_source (export_info md))),
                    (''merged_packages'', JNum (int (merged_packages (export_info md)))),
                    (''total_documents'', JNum (int (total_documents (export_info md)))),
                    (''ai_models_used'', JArr (ai_models_used (export_info md)))])]"

text \<open>Loading the metadata files of the packages, one package after the other.\<close>

fun load_files :: "path list \<Rightarrow> (json list, 'z) io" where
  "load_files [] = io_return []"
| "load_files (metadataFile # metadataFiles) =
     io_bind (io_read (\<lambda>fs. loadMetadataFile fs metadataFile)) (\<lambda>loaded.
       case loaded of
         Inl e \<Rightarrow> io_then (io_log (ErrorLoading (basename metadataFile))) (load_files metadataFiles)
       | Inr metadataDict \<Rightarrow>
           io_bind (load_files metadataFiles) (\<lambda>rest. io_return (metadataDict # rest)))"

fun load_packages :: "document_joiner \<Rightarrow> path list \<Rightarrow> (json list, 'z) io" where
  "load_packages j [] = io_return []"
| "load_packages j (packageDir # packageDirs) =
     io_bind (io_read (\<lambda>fs. DocumentJoiner_findMetadataFiles fs j packageDir)) (\<lambda>metadataFiles.
       if length metadataFiles = 0
       then io_then (io_log (NoMetadataInPackage (basename packageDir)))
              (load_packages j packageDirs)
       else io_bind (load_files metadataFiles) (\<lambda>loaded.
              io_bind (load_packages j packageDirs) (\<lambda>rest. io_return (loaded @ rest))))"

definition docu_join_manifest :: "string \<Rightarrow> path list \<Rightarrow> nat \<Rightarrow> docu_merged \<Rightarrow> json" where
  "docu_join_manifest time packageDirs loadedCount mergedData =
     JObj [(''join_info'',
              JObj [(''timestamp'', JStr time),
                    (''source_packages'', JArr (map (\<lambda>p. JStr (path_str p)) packageDirs)),
                    (''total_metadata_files'', JNum (int loadedCount)),
                    (''total_documents'', JNum (int (length (metadata mergedData)))),
                    (''ai_models_used'', JArr (ai_models_used (export_info mergedData)))]),
           (''output_files'',
              JArr [JStr ''merged-ai-docu-metadata.json'', JStr ''join-summary-report.md'',
                    JStr ''package-manifest.json''])]"

definition DocumentJoiner_join :: "document_joiner \<Rightarrow> (docu_merged, 'z) io" where
  "DocumentJoiner_join j =
     io_bind (extractCompressedPackages j) (\<lambda>extractedPaths.
     io_bind (io_read (\<lambda>fs. findPackageDirectories fs j)) (\<lambda>found.
       case found of
         Inl e \<Rightarrow> io_throw e
       | Inr packageDirs \<Rightarrow>
       if length packageDirs = 0
       then io_throw (Error (''No package directories found in '' @ path_str (inputFolder j)))
       else
     io_bind (load_packages j packageDirs) (\<lambda>allMetadata.
       if length allMetadata = 0
       then io_throw (Error ''No valid metadata files found to merge'')
       else (\<lambda>w.
         (case DocumentJoiner_mergeMetadata (now w) allMetadata of
            None \<Rightarrow> io_throw TypeError
          | Some mergedData \<Rightarrow>
              io_then (ensureDir (joinedFolder j))
             (io_then (writeFile (joinedFolder j @ [''merged-ai-docu-metadata.json''])
                         (JsonFile (docu_merged_json mergedData)))
             (io_then (writeFile (joinedFolder j @ [''join-summary-report.md''])
                         (TextFile ''AI Docu App - Document Analysis Summary Report''))
             (io_then (writeFile (joinedFolder j @ [''package-manifest.json''])
                         (JsonFile (docu_join_manifest (now w) packageDirs (length allMetadata)
                                      mergedData)))
             (io_return mergedData))))) w))))"

text \<open>
  The command line: after a successful join, \<open>--clean-extracted\<close> removes the directories
  of the input folder whose name starts with \<open>docu-package-\<close>.
\<close>

record docu_join_options =
  opt_input :: path
  opt_docu_output :: "path option"
  opt_cleanExtracted :: bool

definition DocumentJoiner_cli :: "path \<Rightarrow> docu_join_options \<Rightarrow> (docu_merged, 'z) io" where
  "DocumentJoiner_cli dir options =
     io_catch
       (io_bind (DocumentJoiner_join
                   (DocumentJoiner (opt_input options)
                      (case opt_docu_output options of Some out \<Rightarrow> out
                       | None \<Rightarrow> dir @ [''joined'']))) (\<lambda>mergedData.
          io_then
            (if opt_cleanExtracted options
             then io_bind (io_read (\<lambda>fs. filter (\<lambda>item. isDirectory fs (opt_input options @ [item])
                                                  \<and> startsWith item ''docu-package-'')
                                           (readdir fs (opt_input options))))
                    (io_forEach (\<lambda>item. remove (opt_input options @ [item])))
             else io_return ())
            (io_return mergedData)))
       exit_with"

section \<open>Notions used to state the properties of the merge\<close>

text \<open>
  The per-file records that a parsed metadata document of the image viewer holds: the
  entries of its \<open>aiData\<close> object. The documents that \<open>mergeMetadata\<close> could parse, in the
  order in which it processes the files.
\<close>

definition aiData_records :: "json \<Rightarrow> (string \<times> json) list" where
  "aiData_records data =
     (case js_prop data ''aiData'' of
        Inr (Some ad) \<Rightarrow> if truthy ad then js_entries ad else []
      | other \<Rightarrow> [])"

definition parsed_documents :: "filesystem \<Rightarrow> path list \<Rightarrow> json list" where
  "parsed_documents fs metadataFiles =
     concat (map (\<lambda>f. case readJSON fs f of Inl e \<Rightarrow> [] | Inr data \<Rightarrow> [data]) metadataFiles)"

text \<open>The records of a loaded document of the document app: the entries of \<open>metadata\<close>.\<close>

definition metadata_records :: "json \<Rightarrow> (string \<times> json) list" where
  "metadata_records metadataDict =
     (case js_prop metadataDict ''metadata'' of
        Inr (Some md) \<Rightarrow> if truthy md then js_entries md else []
      | other \<Rightarrow> [])"

definition all_truthy :: "(string \<times> json) list \<Rightarrow> bool" where
  "all_truthy es = list_all (\<lambda>(k, v). truthy v) es"

section \<open>Example inputs\<close>










text \<open>
  Metadata documents as the image viewer exports them: the first analyses \<open>a.jpg\<close> with
  model \<open>M1\<close>, the second \<open>a.jpg\<close> and \<open>b.jpg\<close> with model \<open>M2\<close>. And the same analyses as
  the document app exports them.
\<close>

definition example_metadata_M1 :: json where
  "example_metadata_M1 =
     JObj [(''aiData'',
              JObj [(''a.jpg'', JObj [(''tag'', JStr ''cat''), (''modelUsed'', JStr ''M1'')])]),
           (''totalImages'', JNum 1)]"

definition example_metadata_M2 :: json where
  "example_metadata_M2 =
     JObj [(''aiData'',
              JObj [(''a.jpg'', JObj [(''tag'', JStr ''dog''), (''modelUsed'', JStr ''M2'')]),
                    (''b.jpg'', JObj [(''tag'', JStr ''bird''), (''modelUsed'', JStr ''M2'')])]),
           (''totalImages'', JNum 2)]"

definition example_docu_metadata_M1 :: json where
  "example_docu_metadata_M1 =
     JObj [(''metadata'', JObj [(''a.jpg'', JObj [(''tag'', JStr ''cat'')])]),
           (''export_info'', JObj [(''ai_model'', JStr ''M1'')])]"

definition example_docu_metadata_M2 :: json where
  "example_docu_metadata_M2 =
     JObj [(''metadata'', JObj [(''a.jpg'', JObj [(''tag'', JStr ''dog'')]),
                                (''b.jpg'', JObj [(''tag'', JStr ''bird'')])]),
           (''export_info'', JObj [(''ai_model'', JStr ''M2'')])]"

text \<open>
  Completed work: \<open>inbox\<close> holds two image packages with their exported metadata (both
  have a file \<open>x.jpg\<close>, with different bytes) and a third package as an archive;
  \<open>plain\<close> holds two image packages without metadata; \<open>papers\<close> holds an archived
  document package without metadata.
\<close>

definition example_join_fs :: filesystem where
  "example_join_fs =
     [([''app''], Dir),
      ([''app'', ''ai_image.html''], File [4]),
      ([''app'', ''collab''], Dir),
      ([''app'', ''collab'', ''js''], Dir),
      ([''tmp''], Dir),
      ([''inbox''], Dir),
      ([''inbox'', ''work-package-001''], Dir),
      ([''inbox'', ''work-package-001'', ''images''], Dir),
      ([''inbox'', ''work-package-001'', ''images'', ''a.jpg''], File [1]),
      ([''inbox'', ''work-package-001'', ''images'', ''x.jpg''], File [7]),
      ([''inbox'', ''work-package-001'', ''package-manifest.json''], JsonFile (JObj [])),
      ([''inbox'', ''work-package-001'', ''ai-image-metadata.json''], JsonFile example_metadata_M1),
      ([''inbox'', ''work-package-002''], Dir),
      ([''inbox'', ''work-package-002'', ''images''], Dir),
      ([''inbox'', ''work-package-002'', ''images'', ''x.jpg''], File [8]),
      ([''inbox'', ''work-package-002'', ''images'', ''b.jpg''], File [2]),
      ([''inbox'', ''work-package-002'', ''ai-image-metadata.json''], JsonFile example_metadata_M2),
      ([''inbox'', ''work-package-003.tar.gz''],
         Archive [([''work-package-003''], Dir),
                  ([''work-package-003'', ''images''], Dir),
                  ([''work-package-003'', ''images'', ''c.jpg''], File [3])]),
      ([''plain''], Dir),
      ([''plain'', ''work-package-001''], Dir),
      ([''plain'', ''work-package-001'', ''images''], Dir),
      ([''plain'', ''work-package-001'', ''images'', ''p.jpg''], File [5]),
      ([''plain'', ''work-package-002''], Dir),
      ([''plain'', ''work-package-002'', ''images''], Dir),
      ([''plain'', ''work-package-002'', ''images'', ''p.jpg''], File [6]),
      ([''plain'', ''work-package-002'', ''images'', ''q.jpg''], File [9]),
      ([''papers''], Dir),
      ([''papers'', ''docu-package-001.zip''],
         Archive [([''docu-package-001''], Dir),
                  ([''docu-package-001'', ''documents''], Dir),
                  ([''docu-package-001'', ''documents'', ''notes.txt''], File [13])])]"

definition example_join_world :: joiner_world where
  "example_join_world =
     \<lparr>files = example_join_fs, console = [], faults = [], now = ''2025-01-02T00:00:00.000Z'',
      packagePaths = [[''inbox'']], tempDir = None, random_names = [''Ab3xZ9'']\<rparr>"

definition example_plain_world :: joiner_world where
  "example_plain_world = example_join_world\<lparr>packagePaths := [[''plain'']]\<rparr>"

definition example_joiner :: joiner where
  "example_joiner =
     \<lparr>outputPath = [''result''], joiner_extensions = image_extensions,
      joiner_htmlFiles = joiner_image_html, joiner_projectRoot = [''app''], tmpdir = [''tmp'']\<rparr>"

definition example_metadata_files :: "path list" where
  "example_metadata_files =
     [[''inbox'', ''work-package-001'', ''ai-image-metadata.json''],
      [''inbox'', ''work-package-002'', ''ai-image-metadata.json'']]"

section \<open>Properties of the chunk partition\<close>
















section \<open>Properties of the discovery\<close>



lemma basename_snoc [simp]: "basename (d @ [n]) = n"
  by (simp add: basename_def)







section \<open>Properties of the file system operations\<close>

lemma map_of_fs_put [simp]:
  "map_of (fs_put fs p n) q = (if q = p then Some n else map_of fs q)"
  by (simp add: fs_put_def update_conv')

lemma map_of_fs_remove [simp]:
  "map_of (fs_remove fs p) q = (if is_under q p then None else map_of fs q)"
  unfolding fs_remove_def
  by (induction fs) (auto)

lemma map_of_mkdir_fold:
  "[] \<notin> set qs \<Longrightarrow>
   map_of (fold (\<lambda>q fs'. if pathExists fs' q then fs' else fs_put fs' q Dir) qs fs) p
     = (if p \<in> set qs \<and> map_of fs p = None then Some Dir else map_of fs p)"
proof (induction qs arbitrary: fs)
  case Nil
  then show ?case by simp
next
  case (Cons q qs)
  then show ?case by (auto simp: pathExists_def)
qed

lemma nil_notin_ancestors [simp]: "[] \<notin> set (ancestors_and_self p)"
  by (auto simp: ancestors_and_self_def)

lemma map_of_mkdirp:
  "map_of (mkdirp fs d) p
     = (if p \<in> set (ancestors_and_self d) \<and> map_of fs p = None then Some Dir else map_of fs p)"
  unfolding mkdirp_def by (rule map_of_mkdir_fold) simp



lemma map_of_put_tree_mono:
  "map_of fs q \<noteq> None \<Longrightarrow> map_of (put_tree fs dst es) q \<noteq> None"
  unfolding put_tree_def
  by (induction es arbitrary: fs) (auto)

lemma is_under_snoc_iff: "is_under (p @ a # r) (p @ [b]) \<longleftrightarrow> a = b"
  by (simp add: is_under_def)

lemma not_under_longer: "length root > length p \<Longrightarrow> \<not> is_under p root"
  by (auto simp: is_under_def)

lemma is_under_refl [simp]: "is_under p p"
  by (simp add: is_under_def)

lemma is_under_self_snoc [simp]: "\<not> is_under p (p @ [x])"
  by (rule not_under_longer) simp

lemma is_under_append [simp]: "is_under (p @ r) p"
  by (simp add: is_under_def)


lemma mkdirp_keeps_present:
  "map_of fs p \<noteq> None \<Longrightarrow> map_of (mkdirp fs d) p \<noteq> None"
  by (simp add: map_of_mkdirp)

lemma mkdirp_keeps_value:
  "map_of fs p = Some n \<Longrightarrow> map_of (mkdirp fs d) p = Some n"
  by (simp add: map_of_mkdirp)




section \<open>Invariants of computations\<close>

text \<open>
  \<open>io_inv P m\<close>: whatever way \<open>m\<close> ends, by returning or by throwing, it leaves \<open>P\<close> true
  if \<open>P\<close> was true before.
\<close>

definition io_inv :: "('z world_scheme \<Rightarrow> bool) \<Rightarrow> ('a, 'z) io \<Rightarrow> bool" where
  "io_inv P m = (\<forall>w r w'. P w \<longrightarrow> m w = (r, w') \<longrightarrow> P w')"

named_theorems io_inv_intros

lemma io_invD: "io_inv P m \<Longrightarrow> P w \<Longrightarrow> m w = (r, w') \<Longrightarrow> P w'"
  unfolding io_inv_def by blast

lemma io_invI: "(\<And>w r w'. P w \<Longrightarrow> m w = (r, w') \<Longrightarrow> P w') \<Longrightarrow> io_inv P m"
  unfolding io_inv_def by blast

lemma io_inv_return [io_inv_intros]: "io_inv P (io_return x)"
  by (simp add: io_inv_def io_return_def)


lemma io_inv_read [io_inv_intros]: "io_inv P (io_read f)"
  by (simp add: io_inv_def io_read_def)

lemma io_inv_bind [io_inv_intros]:
  assumes m: "io_inv P m" and f: "\<And>x. io_inv P (f x)"
  shows "io_inv P (io_bind m f)"
proof (rule io_invI)
  fix w r w'
  assume p: "P w" and e: "io_bind m f w = (r, w')"
  obtain r1 w1 where m1: "m w = (r1, w1)" by (cases "m w")
  have p1: "P w1" using m p m1 by (rule io_invD)
  show "P w'"
  proof (cases r1)
    case (Inl err)
    then show ?thesis using e m1 p1 by (simp add: io_bind_def)
  next
    case (Inr x)
    then have "f x w1 = (r, w')" using e m1 by (simp add: io_bind_def)
    with f p1 show ?thesis by (rule io_invD)
  qed
qed



lemma io_inv_finally [io_inv_intros]:
  assumes m: "io_inv P m" and c: "io_inv P c"
  shows "io_inv P (io_finally m c)"
proof (rule io_invI)
  fix w r w'
  assume p: "P w" and e: "io_finally m c w = (r, w')"
  obtain r1 w1 where m1: "m w = (r1, w1)" by (cases "m w")
  obtain r2 w2 where c2: "c w1 = (r2, w2)" by (cases "c w1")
  have p1: "P w1" using m p m1 by (rule io_invD)
  have p2: "P w2" using c p1 c2 by (rule io_invD)
  have "w' = w2" using e m1 c2 by (cases r2) (simp_all add: io_finally_def)
  with p2 show "P w'" by simp
qed

lemma io_inv_when [io_inv_intros]:
  "io_inv P m \<Longrightarrow> io_inv P (io_when b m)"
  by (simp add: io_when_def io_inv_return)


lemma io_inv_collect [io_inv_intros]:
  assumes "\<And>x. io_inv P (f x)"
  shows "io_inv P (io_collect f xs)"
proof (induction xs)
  case Nil
  show ?case by (simp add: io_inv_return)
next
  case (Cons x xs)
  show ?case unfolding io_collect.simps
    by (rule io_inv_bind, rule assms, rule io_inv_bind, rule Cons, rule io_inv_return)
qed


lemma io_inv_case_sum [io_inv_intros]:
  "(\<And>e. io_inv P (f e)) \<Longrightarrow> (\<And>y. io_inv P (g y))
   \<Longrightarrow> io_inv P (case x of Inl e \<Rightarrow> f e | Inr y \<Rightarrow> g y)"
  by (cases x) simp_all


lemma io_inv_dep:
  "(\<And>w0. io_inv P (g w0)) \<Longrightarrow> io_inv P (\<lambda>w. g w w)"
  unfolding io_inv_def by blast

text \<open>A message once printed stays on the console.\<close>

definition printed :: "message \<Rightarrow> 'z world_scheme \<Rightarrow> bool" where
  "printed m w = (m \<in> set (console w))"

lemma printed_log [io_inv_intros]: "io_inv (printed m) (io_log m')"
  by (simp add: io_inv_def io_log_def printed_def)

lemma printed_fs_write [io_inv_intros]: "io_inv (printed m) (fs_write f)"
  by (rule io_invI)
     (auto simp: fs_write_def printed_def Let_def split: option.splits if_splits)

lemma DocumentSplitter_createManifest_alt:
  "DocumentSplitter_createManifest s p i chunk
     = (\<lambda>w. writeFile (p @ [''package-manifest.json''])
                (JsonFile (DocumentSplitter_manifest s (now w) i chunk)) w)"
  by (rule ext) (simp add: DocumentSplitter_createManifest_def)

lemma WorkSplitter_createManifest_alt:
  "WorkSplitter_createManifest s p i chunk
     = (\<lambda>w. writeFile (p @ [''package-manifest.json''])
                (JsonFile (WorkSplitter_manifest s (now w) i chunk)) w)"
  by (rule ext) (simp add: WorkSplitter_createManifest_def)

lemma printed_createManifest [io_inv_intros]:
  "io_inv (printed m) (DocumentSplitter_createManifest s p i chunk)"
  "io_inv (printed m) (WorkSplitter_createManifest s p i chunk)"
  unfolding DocumentSplitter_createManifest_alt WorkSplitter_createManifest_alt writeFile_def
  by (rule io_inv_dep, rule printed_fs_write)+


text \<open>A property of the file system alone.\<close>

definition on_files :: "(filesystem \<Rightarrow> bool) \<Rightarrow> 'z world_scheme \<Rightarrow> bool" where
  "on_files I w = I (files w)"

lemma on_files_log [io_inv_intros]: "io_inv (on_files I) (io_log m')"
  by (simp add: io_inv_def io_log_def on_files_def)

lemma on_files_fs_write:
  "(\<And>fs fs'. I fs \<Longrightarrow> f fs = Some fs' \<Longrightarrow> I fs') \<Longrightarrow> io_inv (on_files I) (fs_write f)"
  by (rule io_invI)
     (auto simp: fs_write_def on_files_def Let_def split: option.splits if_splits)

text \<open>
  \<open>io_spec P m Q E\<close>: started where \<open>P\<close> holds, \<open>m\<close> either returns \<open>x\<close> in a world
  satisfying \<open>Q x\<close> or throws \<open>e\<close> in a world satisfying \<open>E e\<close>.
\<close>

definition io_spec ::
  "('z world_scheme \<Rightarrow> bool) \<Rightarrow> ('a, 'z) io \<Rightarrow> ('a \<Rightarrow> 'z world_scheme \<Rightarrow> bool)
   \<Rightarrow> (js_error \<Rightarrow> 'z world_scheme \<Rightarrow> bool) \<Rightarrow> bool" where
  "io_spec P m Q E =
     (\<forall>w. P w \<longrightarrow> (case m w of (Inl e, w') \<Rightarrow> E e w' | (Inr x, w') \<Rightarrow> Q x w'))"

lemma io_specI:
  assumes "\<And>w e w'. P w \<Longrightarrow> m w = (Inl e, w') \<Longrightarrow> E e w'"
    and "\<And>w x w'. P w \<Longrightarrow> m w = (Inr x, w') \<Longrightarrow> Q x w'"
  shows "io_spec P m Q E"
  unfolding io_spec_def
proof (intro allI impI)
  fix w assume p: "P w"
  obtain r w' where m: "m w = (r, w')" by (cases "m w")
  show "case m w of (Inl e, w') \<Rightarrow> E e w' | (Inr x, w') \<Rightarrow> Q x w'"
    using assms [OF p] m by (cases r) simp_all
qed

lemma io_spec_returns: "io_spec P m Q E \<Longrightarrow> P w \<Longrightarrow> m w = (Inr x, w') \<Longrightarrow> Q x w'"
  unfolding io_spec_def by (auto split: prod.splits sum.splits)

lemma io_spec_throws: "io_spec P m Q E \<Longrightarrow> P w \<Longrightarrow> m w = (Inl e, w') \<Longrightarrow> E e w'"
  unfolding io_spec_def by (auto split: prod.splits sum.splits)



lemma io_spec_throw: "io_spec (E e) (io_throw e) Q E"
  by (rule io_specI) (simp_all add: io_throw_def)

lemma io_spec_read: "io_spec (\<lambda>w. Q (f (files w)) w) (io_read f) Q E"
  by (rule io_specI) (auto simp: io_read_def)

lemma io_spec_log: "io_spec (\<lambda>w. Q () (w\<lparr>console := console w @ [m]\<rparr>)) (io_log m) Q E"
  by (rule io_specI) (auto simp: io_log_def)



lemma io_spec_catch:
  assumes m: "io_spec P m Q R" and h: "\<And>e. io_spec (R e) (h e) Q E"
  shows "io_spec P (io_catch m h) Q E"
proof (rule io_specI)
  fix w e w' assume p: "P w" and r: "io_catch m h w = (Inl e, w')"
  obtain r1 w1 where m1: "m w = (r1, w1)" by (cases "m w")
  show "E e w'"
  proof (cases r1)
    case (Inr x)
    with r m1 show ?thesis by (simp add: io_catch_def)
  next
    case (Inl e1)
    with m1 have "R e1 w1" using io_spec_throws [OF m p] by simp
    moreover have "h e1 w1 = (Inl e, w')" using r m1 Inl by (simp add: io_catch_def)
    ultimately show ?thesis using h by (meson io_spec_throws)
  qed
next
  fix w y w' assume p: "P w" and r: "io_catch m h w = (Inr y, w')"
  obtain r1 w1 where m1: "m w = (r1, w1)" by (cases "m w")
  show "Q y w'"
  proof (cases r1)
    case (Inr x)
    with r m1 have "m w = (Inr y, w')" by (simp add: io_catch_def)
    with m p show ?thesis by (rule io_spec_returns)
  next
    case (Inl e1)
    with m1 have "R e1 w1" using io_spec_throws [OF m p] by simp
    moreover have "h e1 w1 = (Inr y, w')" using r m1 Inl by (simp add: io_catch_def)
    ultimately show ?thesis using h by (meson io_spec_returns)
  qed
qed


lemma io_spec_fs_write:
  assumes "\<And>fs. I fs \<Longrightarrow> E fs"
    and "\<And>fs fs'. I fs \<Longrightarrow> f fs = Some fs' \<Longrightarrow> Q fs'"
  shows "io_spec (on_files I) (fs_write f) (\<lambda>_. on_files Q) (\<lambda>_. on_files E)"
  by (rule io_specI)
     (auto simp: fs_write_def on_files_def Let_def assms split: option.splits if_splits)


section \<open>What the write operations keep and establish\<close>


lemma io_inv_conj:
  "io_inv P m \<Longrightarrow> io_inv Q m \<Longrightarrow> io_inv (\<lambda>w. P w \<and> Q w) m"
  unfolding io_inv_def by blast

lemma io_inv_all:
  "(\<And>x. io_inv (P x) m) \<Longrightarrow> io_inv (\<lambda>w. \<forall>x \<in> S. P x w) m"
  unfolding io_inv_def by blast

definition absent :: "path \<Rightarrow> 'z world_scheme \<Rightarrow> bool" where
  "absent p w = (map_of (files w) p = None)"

definition present :: "path \<Rightarrow> 'z world_scheme \<Rightarrow> bool" where
  "present p w = pathExists (files w) p"

lemma pathExists_fs_put_same [simp]: "pathExists (fs_put fs p n) p"
  by (simp add: pathExists_def)


lemma pathExists_mkdirp_mono: "pathExists fs p \<Longrightarrow> pathExists (mkdirp fs d) p"
  by (simp add: pathExists_def map_of_mkdirp)

lemma pathExists_put_tree_mono: "pathExists fs p \<Longrightarrow> pathExists (put_tree fs dst es) p"
  unfolding pathExists_def using map_of_put_tree_mono by blast


lemma absent_on_files: "absent p = on_files (\<lambda>fs. map_of fs p = None)"
  by (rule ext) (simp add: absent_def on_files_def)

lemma present_on_files: "present p = on_files (\<lambda>fs. pathExists fs p)"
  by (rule ext) (simp add: present_def on_files_def)




lemma absent_writeFile: "p \<noteq> m \<Longrightarrow> io_inv (absent m) (writeFile p n)"
  unfolding absent_on_files writeFile_def
  by (rule on_files_fs_write) auto

lemma present_ensureDir: "io_inv (present p) (ensureDir d)"
  unfolding present_on_files ensureDir_def
  by (rule on_files_fs_write) (auto simp: pathExists_mkdirp_mono)

lemma present_copy: "io_inv (present p) (copy src dst)"
  unfolding present_on_files copy_def
  by (rule on_files_fs_write)
     (auto simp: pathExists_mkdirp_mono pathExists_put_tree_mono split: if_splits)






section \<open>Properties of the split run\<close>











section \<open>Creating a package: when the manifest appears\<close>



lemma present_copy_if_exists: "io_inv (present p) (copy_if_exists src dst)"
  unfolding copy_if_exists_def
  by (intro io_inv_bind io_inv_read io_inv_when present_copy)


lemma butlast_two [simp]: "butlast (p @ [a, b]) = p @ [a]"
  by (simp add: butlast_append)






section \<open>Properties of the metadata merge\<close>

lemma all_truthy_simps [simp]:
  "all_truthy []"
  "all_truthy ((k, v) # es) = (truthy v \<and> all_truthy es)"
  by (auto simp: all_truthy_def)

lemma all_truthy_iff: "all_truthy es \<longleftrightarrow> (\<forall>(k, v) \<in> set es. truthy v)"
  by (simp add: all_truthy_def list_all_iff)

lemma map_of_js_set [simp]:
  "map_of (js_set obj k v) k' = (if k' = k then Some v else map_of obj k')"
  by (simp add: js_set_def update_conv')

lemma all_truthy_map_of: "all_truthy obj \<Longrightarrow> map_of obj k = Some v \<Longrightarrow> truthy v"
  by (auto simp: all_truthy_iff dest: map_of_SomeD)

lemma set_update_subset: "set (AList.update k v obj) \<subseteq> insert (k, v) (set obj)"
  by (induction obj) auto

lemma all_truthy_js_set: "all_truthy obj \<Longrightarrow> truthy v \<Longrightarrow> all_truthy (js_set obj k v)"
  using set_update_subset [of k v obj] by (auto simp: all_truthy_iff js_set_def)

lemma distinct_js_set: "distinct (map fst obj) \<Longrightarrow> distinct (map fst (js_set obj k v))"
  by (simp add: js_set_def distinct_update)

lemma has_truthy_iff:
  "all_truthy obj \<Longrightarrow>
   has_truthy obj k \<longleftrightarrow> (map_of obj k \<noteq> None \<or> k \<in> set object_prototype_keys)"
  by (auto simp: has_truthy_def dest: all_truthy_map_of split: option.splits)

text \<open>First survives, for records that are truthy.\<close>

lemma merge_aiData_first_survives:
  assumes "all_truthy merged" "all_truthy entries"
  shows "\<exists>merged' models'.
           merge_aiData (merged, models) entries = (None, merged', models')
           \<and> all_truthy merged'
           \<and> (distinct (map fst merged) \<longrightarrow> distinct (map fst merged'))
           \<and> (\<forall>k. map_of merged' k
                  = (if k \<in> set object_prototype_keys then map_of merged k
                     else map_of (merged @ entries) k))"
  using assms
proof (induction entries arbitrary: merged models)
  case Nil
  then show ?case by simp
next
  case (Cons e entries)
  obtain imgName v where e: "e = (imgName, v)" by (cases e)
  have tv: "truthy v" and te: "all_truthy entries" using Cons.prems(2) e by simp_all
  let ?m = "if \<not> has_truthy merged imgName then js_set merged imgName v else merged"
  have tm: "all_truthy ?m" using Cons.prems(1) tv by (simp add: all_truthy_js_set)
  have dm: "distinct (map fst merged) \<longrightarrow> distinct (map fst ?m)"
    by (simp add: distinct_js_set)
  have look: "\<And>k. map_of ?m k
      = (if k \<in> set object_prototype_keys then map_of merged k
         else map_of (merged @ [(imgName, v)]) k)"
    using has_truthy_iff [OF Cons.prems(1), of imgName]
    by (auto simp: map_add_def split: option.splits)
  have nn: "v \<noteq> JNull" using tv by auto
  obtain p where p: "js_prop v ''modelUsed'' = Inr p" using nn by (cases v) auto
  let ?models = "case p of None \<Rightarrow> models
                 | Some model \<Rightarrow> if truthy model then set_add models model else models"
  have step: "merge_aiData (merged, models) (e # entries) = merge_aiData (?m, ?models) entries"
    using p e by (cases p) (simp_all add: Let_def)
  from Cons.IH [OF tm te, of ?models] obtain merged' models' where r:
    "merge_aiData (?m, ?models) entries = (None, merged', models')"
    "all_truthy merged'"
    "distinct (map fst ?m) \<longrightarrow> distinct (map fst merged')"
    "\<forall>k. map_of merged' k
        = (if k \<in> set object_prototype_keys then map_of ?m k else map_of (?m @ entries) k)"
    by blast
  have "\<forall>k. map_of merged' k
        = (if k \<in> set object_prototype_keys then map_of merged k
           else map_of (merged @ e # entries) k)"
  proof
    fix k
    show "map_of merged' k
        = (if k \<in> set object_prototype_keys then map_of merged k
           else map_of (merged @ e # entries) k)"
      using r(4) [rule_format, of k] look [of k] e
      by (auto simp: map_add_def split: option.splits)
  qed
  with step r(1,2,3) dm show ?case by auto
qed

lemma merge_document_first_survives:
  assumes t: "all_truthy (merged_aiData st)" and r: "all_truthy (aiData_records data)"
  shows "\<exists>thrown st'.
           merge_document st data = (thrown, st')
           \<and> all_truthy (merged_aiData st')
           \<and> (distinct (map fst (merged_aiData st)) \<longrightarrow> distinct (map fst (merged_aiData st')))
           \<and> (\<forall>k. map_of (merged_aiData st') k
                  = (if k \<in> set object_prototype_keys then map_of (merged_aiData st) k
                     else map_of (merged_aiData st @ aiData_records data) k))"
proof (cases "data = JNull")
  case True
  then show ?thesis using t
    by (simp add: merge_document_def aiData_records_def)
next
  case False
  obtain c where c: "js_prop data ''captions'' = Inr c" using False by (cases data) auto
  obtain a where a: "js_prop data ''aiData'' = Inr a" using False by (cases data) auto
  obtain tt where tt: "js_prop data ''totalImages'' = Inr tt" using False by (cases data) auto
  let ?st1 = "case c of
                Some cs \<Rightarrow>
                  if truthy cs
                  then st\<lparr>merged_captions := merge_captions (merged_captions st) (js_entries cs)\<rparr>
                  else st
              | None \<Rightarrow> st"
  have s1: "merged_aiData ?st1 = merged_aiData st"
    by (cases c) simp_all
  let ?res = "case a of
                Some ad \<Rightarrow>
                  if truthy ad
                  then merge_aiData (merged_aiData ?st1, modelsUsed ?st1) (js_entries ad)
                  else (None, merged_aiData ?st1, modelsUsed ?st1)
              | None \<Rightarrow> (None, merged_aiData ?st1, modelsUsed ?st1)"
  have recs: "aiData_records data = (case a of Some ad \<Rightarrow> if truthy ad then js_entries ad else []
                                     | None \<Rightarrow> [])"
    using a by (simp add: aiData_records_def split: option.splits)
  have "\<exists>ai models. ?res = (None, ai, models)
          \<and> all_truthy ai
          \<and> (distinct (map fst (merged_aiData st)) \<longrightarrow> distinct (map fst ai))
          \<and> (\<forall>k. map_of ai k
                  = (if k \<in> set object_prototype_keys then map_of (merged_aiData st) k
                     else map_of (merged_aiData st @ aiData_records data) k))"
  proof (cases a)
    case None
    then show ?thesis using t s1 recs by simp
  next
    case (Some ad)
    show ?thesis
    proof (cases "truthy ad")
      case False
      then show ?thesis using t s1 recs Some by simp
    next
      case True
      have e: "all_truthy (js_entries ad)" using r recs Some True by simp
      from merge_aiData_first_survives [OF t e, of "modelsUsed ?st1"]
      obtain merged' models' where m:
        "merge_aiData (merged_aiData st, modelsUsed ?st1) (js_entries ad) = (None, merged', models')"
        "all_truthy merged'"
        "distinct (map fst (merged_aiData st)) \<longrightarrow> distinct (map fst merged')"
        "\<forall>k. map_of merged' k
              = (if k \<in> set object_prototype_keys then map_of (merged_aiData st) k
                 else map_of (merged_aiData st @ js_entries ad) k)"
        by blast
      have "?res = (None, merged', models')" using Some True s1 m(1) by simp
      moreover have "aiData_records data = js_entries ad" using recs Some True by simp
      ultimately show ?thesis using m(2,3,4) by (intro exI [of _ merged'] exI [of _ models']) simp
    qed
  qed
  then obtain ai models where res: "?res = (None, ai, models)"
    and p: "all_truthy ai"
      "distinct (map fst (merged_aiData st)) \<longrightarrow> distinct (map fst ai)"
      "\<forall>k. map_of ai k
                  = (if k \<in> set object_prototype_keys then map_of (merged_aiData st) k
                     else map_of (merged_aiData st @ aiData_records data) k)"
    by blast
  let ?st2 = "?st1\<lparr>merged_aiData := ai, modelsUsed := models\<rparr>"
  let ?st3 = "case tt of None \<Rightarrow> ?st2
              | Some t \<Rightarrow> if truthy t then ?st2\<lparr>imageCount := add_total (imageCount ?st2) t\<rparr>
                          else ?st2"
  have md: "merge_document st data = (None, ?st3)"
    unfolding merge_document_def c a tt
    using res by (simp add: Let_def split: option.splits)
  have "merged_aiData ?st3 = ai" by (cases tt) simp_all
  with md p show ?thesis by simp
qed

text \<open>The loop only reads files and prints: it leaves the file system as it is.\<close>

lemma report_merge_error_files:
  "report_merge_error f e w = (r, w') \<Longrightarrow> r = Inr () \<and> files w' = files w"
  by (auto simp: report_merge_error_def io_log_def)

lemma mergeMetadata_loop_first_survives:
  assumes "all_truthy (merged_aiData st)"
    and "\<forall>data \<in> set (parsed_documents (files w) metadataFiles). all_truthy (aiData_records data)"
  shows "\<exists>st' w'.
           mergeMetadata_loop st metadataFiles w = (Inr st', w')
           \<and> files w' = files w
           \<and> all_truthy (merged_aiData st')
           \<and> (distinct (map fst (merged_aiData st)) \<longrightarrow> distinct (map fst (merged_aiData st')))
           \<and> (\<forall>k. map_of (merged_aiData st') k
                  = (if k \<in> set object_prototype_keys then map_of (merged_aiData st) k
                     else map_of (merged_aiData st
                            @ concat (map aiData_records
                                       (parsed_documents (files w) metadataFiles))) k))"
  using assms
proof (induction metadataFiles arbitrary: st w)
  case Nil
  then show ?case by (simp add: io_return_def parsed_documents_def)
next
  case (Cons metaFile metadataFiles)
  show ?case
  proof (cases "readJSON (files w) metaFile")
    case (Inl e)
    have pd: "parsed_documents (files w) (metaFile # metadataFiles)
            = parsed_documents (files w) metadataFiles"
      using Inl by (simp add: parsed_documents_def)
    obtain w1 where step: "mergeMetadata_loop st (metaFile # metadataFiles) w
              = mergeMetadata_loop st metadataFiles w1" and f1: "files w1 = files w"
    proof -
      let ?w1 = "w\<lparr>console := console w @ [if e = SyntaxError then ErrorParsing (basename metaFile)
                                           else WarningProcessing (basename metaFile)]\<rparr>"
      show ?thesis
        by (rule that [of ?w1])
           (use Inl in \<open>simp_all add: io_bind_def io_read_def io_then_def
                                 report_merge_error_def io_log_def\<close>)
    qed
    have pre2: "\<forall>data \<in> set (parsed_documents (files w1) metadataFiles).
                  all_truthy (aiData_records data)"
      using Cons.prems(2) pd f1 by simp
    from Cons.IH [OF Cons.prems(1) pre2] show ?thesis
      unfolding step pd f1 .
  next
    case (Inr data)
    have pd: "parsed_documents (files w) (metaFile # metadataFiles)
            = data # parsed_documents (files w) metadataFiles"
      using Inr by (simp add: parsed_documents_def)
    have rd: "all_truthy (aiData_records data)" using Cons.prems(2) pd by simp
    from merge_document_first_survives [OF Cons.prems(1) rd]
    obtain thrown st1 where m: "merge_document st data = (thrown, st1)"
      and p: "all_truthy (merged_aiData st1)"
        "distinct (map fst (merged_aiData st)) \<longrightarrow> distinct (map fst (merged_aiData st1))"
        "\<forall>k. map_of (merged_aiData st1) k
              = (if k \<in> set object_prototype_keys then map_of (merged_aiData st) k
                 else map_of (merged_aiData st @ aiData_records data) k)"
      by blast
    obtain w1 where step: "mergeMetadata_loop st (metaFile # metadataFiles) w
              = mergeMetadata_loop st1 metadataFiles w1" and f1: "files w1 = files w"
    proof (cases thrown)
      case None
      show ?thesis
        by (rule that [of w])
           (use Inr m None in \<open>simp_all add: io_bind_def io_read_def\<close>)
    next
      case (Some e)
      let ?w1 = "w\<lparr>console := console w @ [if e = SyntaxError then ErrorParsing (basename metaFile)
                                           else WarningProcessing (basename metaFile)]\<rparr>"
      show ?thesis
        by (rule that [of ?w1])
           (use Inr m Some in \<open>simp_all add: io_bind_def io_read_def io_then_def
                                 report_merge_error_def io_log_def\<close>)
    qed
    have pre2: "\<forall>data \<in> set (parsed_documents (files w1) metadataFiles).
                  all_truthy (aiData_records data)"
      using Cons.prems(2) pd f1 by simp
    from Cons.IH [OF p(1) pre2] obtain st' w' where r:
      "mergeMetadata_loop st1 metadataFiles w1 = (Inr st', w')"
      "files w' = files w1"
      "all_truthy (merged_aiData st')"
      "distinct (map fst (merged_aiData st1)) \<longrightarrow> distinct (map fst (merged_aiData st'))"
      "\<forall>k. map_of (merged_aiData st') k
            = (if k \<in> set object_prototype_keys then map_of (merged_aiData st1) k
               else map_of (merged_aiData st1
                      @ concat (map aiData_records (parsed_documents (files w1) metadataFiles))) k)"
      by blast
    have look: "\<forall>k. map_of (merged_aiData st') k
                  = (if k \<in> set object_prototype_keys then map_of (merged_aiData st) k
                     else map_of (merged_aiData st
                            @ concat (map aiData_records
                                       (parsed_documents (files w) (metaFile # metadataFiles)))) k)"
    proof
      fix k
      show "map_of (merged_aiData st') k
                  = (if k \<in> set object_prototype_keys then map_of (merged_aiData st) k
                     else map_of (merged_aiData st
                            @ concat (map aiData_records
                                       (parsed_documents (files w) (metaFile # metadataFiles)))) k)"
        using r(5) [rule_format, of k] p(3) [rule_format, of k] f1 pd
        by (auto simp: map_add_def split: option.splits)
    qed
    show ?thesis
      unfolding step using r(1,2,3,4) p(2) f1 look by auto
  qed
qed








text \<open>
  Claim C10. There are inputs with at least as many files as \<open>numSplits\<close> for which the
  splitters produce strictly fewer than \<open>numSplits\<close> packages: the chunk size is
  \<open>ceil(totalFiles / numSplits)\<close> and empty chunks are dropped. Five files with
  \<open>numSplits = 4\<close> give the chunk size 2 and the chunk sizes \<open>[2, 2, 1]\<close>, three packages
  instead of four, in the image splitter and in the document splitter alike.
\<close>

theorem C10_fewer_packages_despite_enough_files:
  "ceil_div 5 4 = 2
   \<and> splitImages 4 [''a.jpg'', ''b.jpg'', ''c.jpg'', ''d.jpg'', ''e.jpg'']
       = Inr [[''a.jpg'', ''b.jpg''], [''c.jpg'', ''d.jpg''], [''e.jpg'']]
   \<and> splitDocuments 4 [''a.txt'', ''b.txt'', ''c.txt'', ''d.txt'', ''e.txt'']
       = Inr [[''a.txt'', ''b.txt''], [''c.txt'', ''d.txt''], [''e.txt'']]
   \<and> (\<exists>n (names :: string list) chunks.
         n \<le> int (length names) \<and> splitImages n names = Inr chunks
         \<and> map length chunks = [2, 2, 1] \<and> int (length chunks) < n)
   \<and> (\<exists>n (names :: string list) chunks.
         n \<le> int (length names) \<and> splitDocuments n names = Inr chunks
         \<and> map length chunks = [2, 2, 1] \<and> int (length chunks) < n)"
proof -
  let ?imgs = "[''a.jpg'', ''b.jpg'', ''c.jpg'', ''d.jpg'', ''e.jpg'']"
  let ?docs = "[''a.txt'', ''b.txt'', ''c.txt'', ''d.txt'', ''e.txt'']"
  have c: "ceil_div 5 4 = 2" by (simp add: ceil_div_def)
  have i: "splitImages 4 ?imgs = Inr [[''a.jpg'', ''b.jpg''], [''c.jpg'', ''d.jpg''], [''e.jpg'']]"
    by (simp add: splitImages_def splitImages_loop.simps slice_def ceil_div_def Let_def)
  have d: "splitDocuments 4 ?docs = Inr [[''a.txt'', ''b.txt''], [''c.txt'', ''d.txt''], [''e.txt'']]"
    by (simp add: splitDocuments_def splitDocuments_loop.simps slice_def ceil_div_def Let_def)
  have ei: "\<exists>n (names :: string list) chunks.
         n \<le> int (length names) \<and> splitImages n names = Inr chunks
         \<and> map length chunks = [2, 2, 1] \<and> int (length chunks) < n"
    by (rule exI [of _ 4], rule exI [of _ ?imgs],
        rule exI [of _ "[[''a.jpg'', ''b.jpg''], [''c.jpg'', ''d.jpg''], [''e.jpg'']]"], simp add: i)
  have ed: "\<exists>n (names :: string list) chunks.
         n \<le> int (length names) \<and> splitDocuments n names = Inr chunks
         \<and> map length chunks = [2, 2, 1] \<and> int (length chunks) < n"
    by (rule exI [of _ 4], rule exI [of _ ?docs],
        rule exI [of _ "[[''a.txt'', ''b.txt''], [''c.txt'', ''d.txt''], [''e.txt'']]"], simp add: d)
  from c i d ei ed show ?thesis by blast
qed

end
